theory Spec2Isabelle
  imports Complex_Main "HOL-Library.Sublist"
begin

section \<open>Python strings and values\<close>

text \<open>
  A Python \<open>str\<close> is a sequence of Unicode code points, so it is modelled as a list of
  natural numbers. \<open>u\<close> turns an ASCII literal of the source into that representation;
  \<open>x in s\<close> on two strings is \<^const>\<open>sublist\<close> (a contiguous occurrence).
\<close>

type_synonym pystr = "nat list"

definition u :: "string \<Rightarrow> pystr" where
  "u s = map of_char s"

text \<open>
  The code points for which \<open>str.isspace\<close> holds. \<open>str.strip()\<close> without argument and
  the class \<open>\s\<close> of a \<open>str\<close> pattern both use this set.
\<close>

definition is_space :: "nat \<Rightarrow> bool" where
  "is_space c \<longleftrightarrow>
     (9 \<le> c \<and> c \<le> 13) \<or> (28 \<le> c \<and> c \<le> 32) \<or> c = 133 \<or> c = 160 \<or> c = 5760 \<or>
     (8192 \<le> c \<and> c \<le> 8202) \<or> c = 8232 \<or> c = 8233 \<or> c = 8239 \<or> c = 8287 \<or> c = 12288"

definition strip :: "pystr \<Rightarrow> pystr" where
  "strip s = rev (dropWhile is_space (rev (dropWhile is_space s)))"

definition is_ascii :: "pystr \<Rightarrow> bool" where
  "is_ascii s = list_all (\<lambda>c. c < 128) s"

definition ascii_lower :: "nat \<Rightarrow> nat" where
  "ascii_lower c = (if 65 \<le> c \<and> c \<le> 90 then c + 32 else c)"

definition ascii_upper :: "nat \<Rightarrow> nat" where
  "ascii_upper c = (if 97 \<le> c \<and> c \<le> 122 then c - 32 else c)"

text \<open>
  Floats are IEEE binary64 values: a sign, and either a magnitude \<open>m * 2 ^ e\<close>, an infinity
  or a NaN. JSON values as \<open>json.loads\<close> builds them; a \<open>dict\<close> keeps its insertion order.
\<close>

datatype pyfloat = FFin bool nat int | FInf bool | FNaN

datatype pyval =
    PNone
  | PBool bool
  | PInt int
  | PFloat pyfloat
  | PStr pystr
  | PList "pyval list"
  | PDict "(pystr \<times> pyval) list"

text \<open>
  What the source takes from the Python runtime and the Unicode database, and what the
  repository does not contain: case mapping of text outside ASCII, \<open>int()\<close> of a string
  outside ASCII (Unicode digits and spaces), the \<open>repr\<close> that \<open>str()\<close> prints for a
  float, a list or a dict, and the longest delay that \<open>time.sleep\<close> accepts. The functions
  below decide the ASCII cases themselves and ask this record only for the rest; every
  theorem holds for every such record.

  \<open>time.sleep\<close> converts its argument to a signed 64-bit count of nanoseconds and raises
  \<open>OverflowError\<close> when it does not fit. The conversion is monotone, so the delays it
  accepts are those from 0 up to one largest delay \<open>sleep_max\<close>, which lies between
  9223372036 and 9223372037 seconds (where exactly depends on the rounding of the CPython
  version; no whole number of seconds lies strictly between).
\<close>

record pyrt =
  unicode_lower :: "pystr \<Rightarrow> pystr"
  unicode_capitalize :: "pystr \<Rightarrow> pystr"
  unicode_int :: "pystr \<Rightarrow> int option"
  repr :: "pyval \<Rightarrow> pystr"
  sleep_max :: real

definition py_lower :: "pyrt \<Rightarrow> pystr \<Rightarrow> pystr" where
  "py_lower rt s = (if is_ascii s then map ascii_lower s else unicode_lower rt s)"

definition capitalize :: "pyrt \<Rightarrow> pystr \<Rightarrow> pystr" where
  "capitalize rt s =
     (if is_ascii s
      then (case s of [] \<Rightarrow> [] | c # cs \<Rightarrow> ascii_upper c # map ascii_lower cs)
      else unicode_capitalize rt s)"

section \<open>Model Invoker: \<open>_call_with_retries\<close>\<close>

text \<open>
  An exception is its class name and its message \<open>str(e)\<close>. The call function is the
  sequence of its outcomes: \<open>call_fn i\<close> is what the \<open>i\<close>-th call (from 1) does, either a
  returned value or a raised \<open>Exception\<close>.
\<close>

datatype exc = Exc (exc_class: string) (exc_msg: pystr)

datatype 'a outcome = Returns 'a | Raises exc

record 'a run =
  result :: "exc + 'a"
  sleeps :: "real list"
  attempts :: nat

definition is_transient :: "pyrt \<Rightarrow> exc \<Rightarrow> bool" where
  "is_transient rt e =
     (let msg = py_lower rt (exc_msg e)
      in sublist (u ''429'') msg \<or> sublist (u ''resource exhausted'') msg \<or>
         sublist (u ''quota'') msg \<or> sublist (u ''deadline exceeded'') msg \<or>
         sublist (u ''timeout'') msg)"

text \<open>
  The \<open>for attempt in range(1, max_attempts + 1)\<close> loop, with \<open>todo\<close> iterations left.
  \<open>slept\<close> collects the arguments of the calls of \<open>time.sleep\<close> that return; \<open>time.sleep\<close>
  raises \<open>ValueError\<close> on a negative delay and \<open>OverflowError\<close> on one above \<open>sleep_max\<close>,
  and either leaves the function, since the call stands in the \<open>except\<close> block. Falling
  out of the loop (or \<open>break\<close>) raises \<open>last_exc\<close>. Doubling a float is exact below its
  overflow, which lies far above \<open>sleep_max\<close>, so the delay is a real number.
\<close>

fun retry_loop ::
  "pyrt \<Rightarrow> (nat \<Rightarrow> 'a outcome) \<Rightarrow> int \<Rightarrow> nat \<Rightarrow> nat \<Rightarrow> real \<Rightarrow> exc \<Rightarrow> real list \<Rightarrow> 'a run" where
  "retry_loop rt call_fn max_attempts 0 attempt delay last_exc slept =
     \<lparr>result = Inl last_exc, sleeps = slept, attempts = attempt - 1\<rparr>"
| "retry_loop rt call_fn max_attempts (Suc todo) attempt delay last_exc slept =
     (case call_fn attempt of
        Returns v \<Rightarrow> \<lparr>result = Inr v, sleeps = slept, attempts = attempt\<rparr>
      | Raises e \<Rightarrow>
          if is_transient rt e then
            if int attempt = max_attempts
            then \<lparr>result = Inl e, sleeps = slept, attempts = attempt\<rparr>
            else if delay < 0
            then \<lparr>result = Inl (Exc ''ValueError'' (u ''sleep length must be non-negative'')),
                  sleeps = slept, attempts = attempt\<rparr>
            else if sleep_max rt < delay
            then \<lparr>result = Inl (Exc ''OverflowError''
                                  (u ''timestamp out of range for platform time_t'')),
                  sleeps = slept, attempts = attempt\<rparr>
            else retry_loop rt call_fn max_attempts todo (Suc attempt) (delay * 2) e
                   (slept @ [delay])
          else \<lparr>result = Inl e, sleeps = slept, attempts = attempt\<rparr>)"

definition call_with_retries ::
  "pyrt \<Rightarrow> (nat \<Rightarrow> 'a outcome) \<Rightarrow> int \<Rightarrow> real \<Rightarrow> 'a run" where
  "call_with_retries rt call_fn max_attempts initial_delay =
     retry_loop rt call_fn max_attempts (nat max_attempts) 1 initial_delay
       (Exc ''Exception'' (u ''Call failed after retries'')) []"

text \<open>The outcome is a failure that the loop retries.\<close>

definition transient_fail :: "pyrt \<Rightarrow> 'a outcome \<Rightarrow> bool" where
  "transient_fail rt out = (case out of Returns v \<Rightarrow> False | Raises e \<Rightarrow> is_transient rt e)"

definition result_of :: "'a outcome \<Rightarrow> exc + 'a" where
  "result_of out = (case out of Returns v \<Rightarrow> Inr v | Raises e \<Rightarrow> Inl e)"

definition backoff :: "real \<Rightarrow> nat \<Rightarrow> real list" where
  "backoff d n = map (\<lambda>i. d * 2 ^ i) [0..<n]"

text \<open>
  The example of the specification: \<open>429\<close> on the first three attempts, success on the
  fourth.
\<close>

definition flaky_call :: "nat \<Rightarrow> pystr outcome" where
  "flaky_call i =
     (if i \<le> 3 then Raises (Exc ''ResourceExhausted'' (u ''429 Too Many Requests''))
      else Returns (u ''ok''))"

section \<open>Prompt Builder\<close>

text \<open>
  \<open>str(n)\<close> of an integer, as the f-strings of the prompt print it.
\<close>

fun str_nat :: "nat \<Rightarrow> pystr" where
  "str_nat n = (if n < 10 then [48 + n] else str_nat (n div 10) @ [48 + n mod 10])"

definition str_int :: "int \<Rightarrow> pystr" where
  "str_int i = (if i < 0 then 45 # str_nat (nat (- i)) else str_nat (nat i))"

fun join :: "pystr \<Rightarrow> pystr list \<Rightarrow> pystr" where
  "join sep [] = []"
| "join sep [x] = x"
| "join sep (x # y # ys) = x @ sep @ join sep (y # ys)"

definition replace_char :: "nat \<Rightarrow> nat \<Rightarrow> pystr \<Rightarrow> pystr" where
  "replace_char a b s = map (\<lambda>c. if c = a then b else c) s"

text \<open>The table \<open>script_instructions\<close> of \<open>_language_instruction\<close>.\<close>

definition script_instructions :: "(pystr \<times> pystr) list" where
  "script_instructions =
   [(u ''gujarati'', u ''Gujarati script ('' @ [2711, 2753, 2716, 2736, 2750, 2724, 2752] @ u '' '' @
       [2738, 2751, 2730, 2751] @
       u '') - use actual Gujarati Unicode characters, NOT transliteration''),
    (u ''hindi'', u ''Hindi script ('' @ [2342, 2375, 2357, 2344, 2366, 2327, 2352, 2368] @
       u '') - use actual Devanagari Unicode characters, NOT transliteration''),
    (u ''marathi'', u ''Marathi script ('' @ [2342, 2375, 2357, 2344, 2366, 2327, 2352, 2368] @
       u '') - use actual Devanagari Unicode characters, NOT transliteration''),
    (u ''bengali'', u ''Bengali script ('' @ [2476, 2494, 2434, 2482, 2494] @
       u '') - use actual Bengali Unicode characters, NOT transliteration''),
    (u ''tamil'', u ''Tamil script ('' @ [2980, 2990, 3007, 2996, 3021] @
       u '') - use actual Tamil Unicode characters, NOT transliteration''),
    (u ''telugu'', u ''Telugu script ('' @ [3108, 3142, 3122, 3137, 3095, 3137] @
       u '') - use actual Telugu Unicode characters, NOT transliteration''),
    (u ''kannada'', u ''Kannada script ('' @ [3221, 3240, 3277, 3240, 3233] @
       u '') - use actual Kannada Unicode characters, NOT transliteration''),
    (u ''malayalam'', u ''Malayalam script ('' @ [3374, 3378, 3375, 3390, 3379, 3330] @
       u '') - use actual Malayalam Unicode characters, NOT transliteration''),
    (u ''punjabi'', u ''Punjabi script ('' @ [2602, 2672, 2588, 2622, 2604, 2624] @
       u '') - use actual Gurmukhi Unicode characters, NOT transliteration'')]"

definition language_instruction :: "pyrt \<Rightarrow> pystr option \<Rightarrow> pystr" where
  "language_instruction rt language =
     (let target = py_lower rt (strip (case language of
                                         None \<Rightarrow> u ''english''
                                       | Some l \<Rightarrow> if l = [] then u ''english'' else l))
      in if target = [] then u ''english''
         else (case map_of script_instructions target of
                 Some instruction \<Rightarrow> instruction
               | None \<Rightarrow> target))"

text \<open>
  The request models of \<open>schemas.py\<close>. \<open>dietary_items\<close> is
  \<open>dietary.dict(exclude_none=True).items()\<close>: the set fields, in declaration order.
\<close>

record DietaryPreference =
  vegetarian :: "bool option"
  vegan :: "bool option"
  gluten_free :: "bool option"
  dairy_free :: "bool option"
  nut_free :: "bool option"
  low_carb :: "bool option"
  high_protein :: "bool option"

definition dietary_items :: "DietaryPreference \<Rightarrow> (pystr \<times> bool) list" where
  "dietary_items d =
     List.map_filter (\<lambda>(k, v). map_option (Pair k) v)
       [(u ''vegetarian'', vegetarian d), (u ''vegan'', vegan d),
        (u ''gluten_free'', gluten_free d), (u ''dairy_free'', dairy_free d),
        (u ''nut_free'', nut_free d), (u ''low_carb'', low_carb d),
        (u ''high_protein'', high_protein d)]"

record ImageRecipePreferences =
  servings :: "int option"
  dietary :: "DietaryPreference option"
  cuisine_hint :: "pystr option"
  cooking_time_limit_minutes :: "int option"
  language :: "pystr option"
  variation :: "bool option"

record RecipeFromTextRequest = ImageRecipePreferences +
  ingredients :: "pystr list"

record RecipeFromPromptRequest =
  prompt :: pystr
  prompt_servings :: "int option"
  prompt_language :: "pystr option"
  prompt_variation :: "bool option"

text \<open>The lines that \<open>_build_text_prompt\<close> and \<open>_build_image_prompt\<close> share.\<close>

definition preference_parts :: "('a ImageRecipePreferences_scheme) \<Rightarrow> pystr list" where
  "preference_parts p =
     (case cuisine_hint p of
        Some c \<Rightarrow> if c = [] then [] else [u ''Cuisine hint: '' @ c @ [46, 10]]
      | None \<Rightarrow> []) @
     (case servings p of
        Some n \<Rightarrow> if n = 0 then [] else [u ''Target servings: '' @ str_int n @ [46, 10]]
      | None \<Rightarrow> []) @
     (case cooking_time_limit_minutes p of
        Some n \<Rightarrow> if n = 0 then [] else [u ''Time limit: '' @ str_int n @ u '' minutes.'' @ [10]]
      | None \<Rightarrow> []) @
     (case dietary p of
        Some d \<Rightarrow>
          (let prefs = map (\<lambda>(k, v). replace_char 95 32 k) (filter snd (dietary_items d))
           in if prefs = [] then [] else [u ''Dietary: '' @ join (u '', '') prefs @ [46, 10]])
      | None \<Rightarrow> [])"

text \<open>
  The line \<open>f"CRITICAL: Respond entirely in {language}. ..."\<close>, which the three builders end
  differently.
\<close>

definition language_part :: "pyrt \<Rightarrow> pystr option \<Rightarrow> pystr \<Rightarrow> pystr" where
  "language_part rt lang ending =
     u ''CRITICAL: Respond entirely in '' @ language_instruction rt lang @
     u ''. All text (title, ingredients, steps, tips) must be in the native script, NOT transliteration. Use proper Unicode characters for the language.'' @
     ending @ [10]"

definition variations :: "pystr list" where
  "variations =
    [u ''IMPORTANT: Generate a COMPLETELY DIFFERENT recipe variation. Use different cooking methods, spices, or preparation style. Make it unique from any previous recipe.'',
     u ''IMPORTANT: Create a DISTINCT recipe variation. Try different flavor profiles, cooking techniques, or ingredient combinations. Ensure it'' @ [39] @ u ''s different from previous suggestions.'',
     u ''IMPORTANT: Generate a UNIQUE recipe variation. Experiment with alternative spices, different cooking times, or varied preparation methods. Make it stand out as different.'',
     u ''IMPORTANT: Provide a FRESH recipe variation. Use different spice combinations, alternative cooking methods, or unique presentation. Ensure variety and uniqueness.'']"

definition prompt_variations :: "pystr list" where
  "prompt_variations =
    [u ''IMPORTANT: Generate a COMPLETELY DIFFERENT recipe variation. Use different cooking methods, spices, or preparation style.'',
     u ''IMPORTANT: Create a DISTINCT recipe variation. Try different flavor profiles, cooking techniques, or ingredient combinations.'',
     u ''IMPORTANT: Generate a UNIQUE recipe variation. Experiment with alternative spices, different cooking times, or varied preparation methods.'']"

text \<open>
  \<open>random.choice(pool)\<close> is the element at a position that the caller of the model
  supplies: \<open>pick\<close> stands for the random draw.
\<close>

definition variation_part :: "pystr list \<Rightarrow> bool option \<Rightarrow> nat \<Rightarrow> pystr list" where
  "variation_part pool flag pick =
     (if flag = Some True then [pool ! (pick mod length pool) @ [10]] else [])"

definition schema_part :: pystr where
  "schema_part =
     u ''Return JSON strictly in this schema: {'' @ [10] @
     u ''  '' @ [39] @ u ''title'' @ [39] @ u '': str, '' @ [39] @ u ''cuisine'' @ [39] @
     u '': str|null, '' @ [39] @ u ''servings'' @ [39] @ u '': int, '' @ [39] @
     u ''total_time_minutes'' @ [39] @ u '': int|null,'' @ [10] @
     u ''  '' @ [39] @ u ''ingredients'' @ [39] @ u '': [{ '' @ [39] @ u ''name'' @ [39] @
     u '': str, '' @ [39] @ u ''quantity'' @ [39] @ u '': str|null }],'' @ [10] @
     u ''  '' @ [39] @ u ''steps'' @ [39] @ u '': [{ '' @ [39] @ u ''number'' @ [39] @
     u '': int, '' @ [39] @ u ''instruction'' @ [39] @ u '': str }],'' @ [10] @
     u ''  '' @ [39] @ u ''nutrition'' @ [39] @ u '': { '' @ [39] @ u ''calories'' @ [39] @
     u '': int|null, '' @ [39] @ u ''protein_g'' @ [39] @ u '': float|null, '' @ [39] @
     u ''carbs_g'' @ [39] @ u '': float|null, '' @ [39] @ u ''fat_g'' @ [39] @
     u '': float|null, '' @ [39] @ u ''fiber_g'' @ [39] @ u '': float|null, '' @ [39] @
     u ''sodium_mg'' @ [39] @ u '': float|null }|null,'' @ [10] @
     u ''  '' @ [39] @ u ''tips'' @ [39] @ u '': [str]|null'' @ [10] @
     u ''}'' @ [10]"

definition build_text_prompt :: "pyrt \<Rightarrow> 'a RecipeFromTextRequest_scheme \<Rightarrow> nat \<Rightarrow> pystr" where
  "build_text_prompt rt payload pick =
     concat
       ([u ''You are ChefGPT, a culinary assistant for Indian audiences.'' @ [10],
         u ''Generate ONE practical recipe using ONLY the provided ingredients if possible.'' @ [10],
         u ''Respect dietary preferences and aim for balanced nutrition.'' @ [10],
         u ''Ingredients available: '' @ join (u '', '') (ingredients payload) @ [46, 10]] @
        preference_parts payload @
        [language_part rt (language payload) (u '' Keep measurements practical.'')] @
        variation_part variations (variation payload) pick @
        [schema_part,
         u ''Only output valid JSON with double quotes, no markdown fences.''])"

definition build_image_prompt :: "pyrt \<Rightarrow> 'a ImageRecipePreferences_scheme \<Rightarrow> nat \<Rightarrow> pystr" where
  "build_image_prompt rt preferences pick =
     concat
       ([u ''You are ChefGPT. Identify ingredients visible in the image and propose ONE recipe with a specific descriptive title based on the dish you see.'' @ [10]] @
        preference_parts preferences @
        [language_part rt (language preferences) (u '' Keep instructions concise.'')] @
        variation_part variations (variation preferences) pick @
        [u ''IMPORTANT: Generate a proper recipe title that describes the actual dish (e.g., '' @
         [39] @ u ''Chicken Curry'' @ [39] @ u '', '' @ [39] @ u ''Vegetable Biryani'' @ [39] @
         u '', '' @ [39] @ u ''Paneer Tikka'' @ [39] @
         u ''). Return strictly JSON with fields: title, ingredients, steps, cuisine, servings, total_time_minutes. Only JSON output.''])"

definition build_prompt_recipe_prompt :: "pyrt \<Rightarrow> RecipeFromPromptRequest \<Rightarrow> nat \<Rightarrow> pystr" where
  "build_prompt_recipe_prompt rt payload pick =
     concat
       ([u ''You are ChefGPT, a culinary assistant for Indian audiences.'' @ [10],
         u ''Generate ONE complete recipe based on the user'' @ [39] @ u ''s request.'' @ [10],
         u ''Include all ingredients, detailed steps, nutrition info, and helpful tips.'' @ [10],
         u ''User request: '' @ prompt payload @ [10]] @
        (case prompt_servings payload of
           Some n \<Rightarrow> if n = 0 then [] else [u ''Target servings: '' @ str_int n @ [46, 10]]
         | None \<Rightarrow> []) @
        [language_part rt (prompt_language payload) []] @
        variation_part prompt_variations (prompt_variation payload) pick @
        [schema_part,
         u ''Only output valid JSON with double quotes, no markdown fences.''])"

text \<open>A request in Hindi, for evaluating the builder.\<close>

definition hindi_request :: RecipeFromTextRequest where
  "hindi_request =
     \<lparr>servings = Some 2, dietary = None, cuisine_hint = None,
      cooking_time_limit_minutes = None, language = Some (u '' Hindi ''),
      variation = Some False, ingredients = [u ''aloo'', u ''matar'']\<rparr>"

section \<open>Python operations on JSON values\<close>

datatype pyerr =
  TypeError | ValueError | OverflowError | AttributeError | JSONDecodeError | RecursionError
  | ValidationError

text \<open>Truth value testing: \<open>if v\<close>, \<open>a or b\<close>.\<close>

fun truthy :: "pyval \<Rightarrow> bool" where
  "truthy PNone = False"
| "truthy (PBool b) = b"
| "truthy (PInt i) = (i \<noteq> 0)"
| "truthy (PFloat (FFin s m e)) = (m \<noteq> 0)"
| "truthy (PFloat (FInf s)) = True"
| "truthy (PFloat FNaN) = True"
| "truthy (PStr s) = (s \<noteq> [])"
| "truthy (PList xs) = (xs \<noteq> [])"
| "truthy (PDict kvs) = (kvs \<noteq> [])"

definition py_or :: "pyval \<Rightarrow> pyval \<Rightarrow> pyval" where
  "py_or a b = (if truthy a then a else b)"

text \<open>\<open>d.get(k)\<close> and \<open>d.get(k, default)\<close>.\<close>

definition dict_get :: "(pystr \<times> pyval) list \<Rightarrow> pystr \<Rightarrow> pyval" where
  "dict_get d k = (case map_of d k of Some v \<Rightarrow> v | None \<Rightarrow> PNone)"

definition dict_get_default :: "(pystr \<times> pyval) list \<Rightarrow> pystr \<Rightarrow> pyval \<Rightarrow> pyval" where
  "dict_get_default d k dflt = (case map_of d k of Some v \<Rightarrow> v | None \<Rightarrow> dflt)"

text \<open>\<open>str(v)\<close>, also what an f-string prints for \<open>v\<close>.\<close>

definition py_str :: "pyrt \<Rightarrow> pyval \<Rightarrow> pystr" where
  "py_str rt v =
     (case v of
        PNone \<Rightarrow> u ''None''
      | PBool b \<Rightarrow> (if b then u ''True'' else u ''False'')
      | PInt i \<Rightarrow> str_int i
      | PStr s \<Rightarrow> s
      | _ \<Rightarrow> repr rt v)"

text \<open>
  \<open>int(v)\<close>. Around the number of a string \<open>int\<close> skips the six ASCII white-space
  characters of C (tab to carriage return, and the space), fewer than \<open>str.strip\<close>
  removes; the number may carry a sign and is a run of decimal digits in which single
  underscores may separate digits. (The limit that recent interpreters put on the number
  of digits is not modelled.) A float is truncated towards zero.
\<close>

definition is_c_space :: "nat \<Rightarrow> bool" where
  "is_c_space c \<longleftrightarrow> (9 \<le> c \<and> c \<le> 13) \<or> c = 32"

definition is_digit :: "nat \<Rightarrow> bool" where
  "is_digit c \<longleftrightarrow> 48 \<le> c \<and> c \<le> 57"

fun int_digits :: "nat \<Rightarrow> pystr \<Rightarrow> nat option" where
  "int_digits acc [] = Some acc"
| "int_digits acc (c # cs) =
     (if is_digit c then int_digits (10 * acc + (c - 48)) cs
      else if c = 95 then
        (case cs of [] \<Rightarrow> None | d # ds \<Rightarrow> if is_digit d then int_digits acc cs else None)
      else None)"

definition unsigned_int :: "pystr \<Rightarrow> nat option" where
  "unsigned_int s =
     (case s of [] \<Rightarrow> None | c # cs \<Rightarrow> if is_digit c then int_digits 0 s else None)"

definition ascii_int :: "pystr \<Rightarrow> int option" where
  "ascii_int s =
     (case rev (dropWhile is_c_space (rev (dropWhile is_c_space s))) of
        [] \<Rightarrow> None
      | c # cs \<Rightarrow>
          if c = 45 then map_option (\<lambda>n. - int n) (unsigned_int cs)
          else if c = 43 then map_option int (unsigned_int cs)
          else map_option int (unsigned_int (c # cs)))"

definition int_of_str :: "pyrt \<Rightarrow> pystr \<Rightarrow> int option" where
  "int_of_str rt s = (if is_ascii s then ascii_int s else unicode_int rt s)"

definition float_trunc :: "bool \<Rightarrow> nat \<Rightarrow> int \<Rightarrow> int" where
  "float_trunc s m e =
     (let a = (if 0 \<le> e then int m * 2 ^ nat e else int m div 2 ^ nat (- e))
      in if s then - a else a)"

definition py_int :: "pyrt \<Rightarrow> pyval \<Rightarrow> pyerr + int" where
  "py_int rt v =
     (case v of
        PInt i \<Rightarrow> Inr i
      | PBool b \<Rightarrow> Inr (if b then 1 else 0)
      | PFloat f \<Rightarrow>
          (case f of
             FFin s m e \<Rightarrow> Inr (float_trunc s m e)
           | FInf s \<Rightarrow> Inl OverflowError
           | FNaN \<Rightarrow> Inl ValueError)
      | PStr s \<Rightarrow> (case int_of_str rt s of Some i \<Rightarrow> Inr i | None \<Rightarrow> Inl ValueError)
      | _ \<Rightarrow> Inl TypeError)"

text \<open>
  \<open>x in c\<close> for a string \<open>x\<close>: a substring of a string, an element of a list, a key of
  a dict; any other container raises \<open>TypeError\<close>.
\<close>

definition py_in :: "pystr \<Rightarrow> pyval \<Rightarrow> pyerr + bool" where
  "py_in x c =
     (case c of
        PStr s \<Rightarrow> Inr (sublist x s)
      | PList xs \<Rightarrow> Inr (PStr x \<in> set xs)
      | PDict kvs \<Rightarrow> Inr (x \<in> fst ` set kvs)
      | _ \<Rightarrow> Inl TypeError)"

fun split_on :: "nat \<Rightarrow> pystr \<Rightarrow> pystr list" where
  "split_on sep [] = [[]]"
| "split_on sep (c # cs) =
     (if c = sep then [] # split_on sep cs
      else (case split_on sep cs of [] \<Rightarrow> [[c]] | p # ps \<Rightarrow> (c # p) # ps))"

section \<open>Output Normalizer: \<open>_coerce_recipe_dict\<close>\<close>

definition to_int :: "pyrt \<Rightarrow> pyval \<Rightarrow> int \<Rightarrow> int" where
  "to_int rt v dflt = (case py_int rt v of Inr i \<Rightarrow> i | Inl e \<Rightarrow> dflt)"

definition raw_title :: "(pystr \<times> pyval) list \<Rightarrow> pyval" where
  "raw_title data =
     py_or (dict_get data (u ''title''))
       (py_or (dict_get data (u ''name''))
          (py_or (dict_get data (u ''recipe_name'')) (PStr (u ''Recipe''))))"

definition alt_keys :: "pystr list" where
  "alt_keys = [u ''title_en'', u ''transliteration'', u ''name_en'', u ''english_title'',
               u ''recipe_name_en'']"

text \<open>The loop \<open>for k in alt_keys\<close>, left by \<open>break\<close> at the first value that is true.\<close>

fun alt_loop :: "pyrt \<Rightarrow> (pystr \<times> pyval) list \<Rightarrow> pystr list \<Rightarrow> pystr option" where
  "alt_loop rt data [] = None"
| "alt_loop rt data (k # ks) =
     (let v = dict_get data k
      in if truthy v then Some (strip (py_str rt v)) else alt_loop rt data ks)"

definition paren :: "pystr \<Rightarrow> pystr \<Rightarrow> pystr" where
  "paren a b = a @ u '' ('' @ b @ u '')''"

definition display_title :: "pyrt \<Rightarrow> (pystr \<times> pyval) list \<Rightarrow> pyerr + pyval" where
  "display_title rt data =
     (let title0 = raw_title data;
          with_alt =
            (case alt_loop rt data alt_keys of
               None \<Rightarrow> Inr title0
             | Some alt \<Rightarrow>
                 if alt = [] then Inr title0
                 else (case py_in alt title0 of
                         Inl e \<Rightarrow> Inl e
                       | Inr found \<Rightarrow>
                           if found then Inr title0
                           else Inr (PStr (paren (py_str rt title0) alt))))
      in case with_alt of
           Inl e \<Rightarrow> Inl e
         | Inr t \<Rightarrow>
             (let cuisine_val = dict_get data (u ''cuisine'')
              in if truthy cuisine_val then
                   (let c = strip (py_str rt cuisine_val)
                    in if c = [] then Inr t
                       else Inr (PStr (paren (py_str rt t) (capitalize rt c))))
                 else Inr t))"

definition servings_of :: "pyrt \<Rightarrow> (pystr \<times> pyval) list \<Rightarrow> int" where
  "servings_of rt data = to_int rt (dict_get_default data (u ''servings'') (PInt 2)) 2"

definition total_time_of :: "pyrt \<Rightarrow> (pystr \<times> pyval) list \<Rightarrow> pyval" where
  "total_time_of rt data =
     (let t = to_int rt
                (dict_get_default data (u ''total_time_minutes'')
                   (dict_get_default data (u ''time_minutes'') (PInt 0))) 0
      in if t = 0 then PNone else PInt t)"

definition ingredient_name :: "pyrt \<Rightarrow> pyval \<Rightarrow> pyval" where
  "ingredient_name rt item =
     (case item of
        PDict i \<Rightarrow>
          py_or (dict_get i (u ''name''))
            (py_or (dict_get i (u ''ingredient'')) (PStr (py_str rt item)))
      | _ \<Rightarrow> PStr (py_str rt item))"

definition ingredient_qty :: "pyval \<Rightarrow> pyval" where
  "ingredient_qty item =
     (case item of
        PDict i \<Rightarrow> py_or (dict_get i (u ''quantity'')) (dict_get i (u ''qty''))
      | _ \<Rightarrow> PNone)"

text \<open>The loop \<open>for item in ings\<close>, appending to \<open>norm_ings\<close>.\<close>

fun ingredients_loop :: "pyrt \<Rightarrow> pyval list \<Rightarrow> pyval list \<Rightarrow> pyval list" where
  "ingredients_loop rt [] norm_ings = norm_ings"
| "ingredients_loop rt (item # items) norm_ings =
     (let name = ingredient_name rt item; qty = ingredient_qty item
      in ingredients_loop rt items
           (if truthy name
            then norm_ings @ [PDict [(u ''name'', name), (u ''quantity'', qty)]]
            else norm_ings))"

definition default_ingredient :: pyval where
  "default_ingredient = PDict [(u ''name'', PStr (u ''salt'')), (u ''quantity'', PStr (u ''to taste''))]"

definition ingredients_of :: "pyrt \<Rightarrow> (pystr \<times> pyval) list \<Rightarrow> pyval list" where
  "ingredients_of rt data =
     (let ings = py_or (dict_get data (u ''ingredients''))
                   (py_or (dict_get data (u ''ingredient_list'')) (PList []));
          norm_ings = (case ings of PList items \<Rightarrow> ingredients_loop rt items [] | _ \<Rightarrow> [])
      in if norm_ings = [] then [default_ingredient] else norm_ings)"

definition step_instruction :: "pyrt \<Rightarrow> pyval \<Rightarrow> pyval" where
  "step_instruction rt s =
     (case s of
        PDict i \<Rightarrow>
          py_or (dict_get i (u ''instruction''))
            (py_or (dict_get i (u ''step'')) (PStr (py_str rt s)))
      | _ \<Rightarrow> PStr (py_str rt s))"

definition step_number :: "pyval \<Rightarrow> int \<Rightarrow> pyval" where
  "step_number s idx =
     (case s of PDict i \<Rightarrow> py_or (dict_get i (u ''number'')) (PInt idx) | _ \<Rightarrow> PInt idx)"

text \<open>
  The loop \<open>for idx, s in enumerate(steps, start=1)\<close>. \<open>int(number)\<close> is not guarded: its
  exception leaves the function.
\<close>

fun steps_loop :: "pyrt \<Rightarrow> int \<Rightarrow> pyval list \<Rightarrow> pyval list \<Rightarrow> pyerr + pyval list" where
  "steps_loop rt idx [] norm_steps = Inr norm_steps"
| "steps_loop rt idx (s # ss) norm_steps =
     (let instruction = step_instruction rt s; number = step_number s idx
      in if truthy instruction then
           (case py_int rt number of
              Inl e \<Rightarrow> Inl e
            | Inr n \<Rightarrow>
                steps_loop rt (idx + 1) ss
                  (norm_steps @ [PDict [(u ''number'', PInt n), (u ''instruction'', instruction)]]))
         else steps_loop rt (idx + 1) ss norm_steps)"

text \<open>The loop over the sentences of a string of steps.\<close>

fun sentences_loop :: "int \<Rightarrow> pystr list \<Rightarrow> pyval list \<Rightarrow> pyval list" where
  "sentences_loop idx [] norm_steps = norm_steps"
| "sentences_loop idx (p # ps) norm_steps =
     sentences_loop (idx + 1) ps
       (norm_steps @ [PDict [(u ''number'', PInt idx), (u ''instruction'', PStr p)]])"

definition default_step :: pyval where
  "default_step =
     PDict [(u ''number'', PInt 1),
            (u ''instruction'', PStr (u ''Mix ingredients and cook until done.''))]"

definition steps_of :: "pyrt \<Rightarrow> (pystr \<times> pyval) list \<Rightarrow> pyerr + pyval list" where
  "steps_of rt data =
     (let steps = py_or (dict_get data (u ''steps''))
                    (py_or (dict_get data (u ''instructions'')) (PList []));
          norm_steps =
            (case steps of
               PList items \<Rightarrow> steps_loop rt 1 items []
             | PStr s \<Rightarrow>
                 if strip s \<noteq> []
                 then Inr (sentences_loop 1
                             (filter (\<lambda>p. p \<noteq> []) (map strip (split_on 46 s))) [])
                 else Inr []
             | _ \<Rightarrow> Inr [])
      in case norm_steps of
           Inl e \<Rightarrow> Inl e
         | Inr ns \<Rightarrow> Inr (if ns = [] then [default_step] else ns))"

text \<open>
  \<open>_coerce_recipe_dict\<close>. A value that is not a dict has no \<open>get\<close>. The title is computed
  first and the steps last, so an exception of the title wins.
\<close>

definition coerce_recipe_dict :: "pyrt \<Rightarrow> pyval \<Rightarrow> pyerr + pyval" where
  "coerce_recipe_dict rt v =
     (case v of
        PDict data \<Rightarrow>
          (case display_title rt data of
             Inl e \<Rightarrow> Inl e
           | Inr title \<Rightarrow>
               (case steps_of rt data of
                  Inl e \<Rightarrow> Inl e
                | Inr steps \<Rightarrow>
                    Inr (PDict
                      [(u ''title'', title),
                       (u ''cuisine'', dict_get data (u ''cuisine'')),
                       (u ''servings'', PInt (servings_of rt data)),
                       (u ''total_time_minutes'', total_time_of rt data),
                       (u ''ingredients'', PList (ingredients_of rt data)),
                       (u ''steps'', PList steps),
                       (u ''nutrition'', dict_get data (u ''nutrition'')),
                       (u ''tips'', dict_get data (u ''tips''))])))
      | _ \<Rightarrow> Inl AttributeError)"

text \<open>The field of a coerced recipe.\<close>

definition field :: "pystr \<Rightarrow> pyval \<Rightarrow> pyval" where
  "field k v = (case v of PDict kvs \<Rightarrow> dict_get kvs k | _ \<Rightarrow> PNone)"

text \<open>The example of the specification for the title.\<close>

definition dal_dict :: "(pystr \<times> pyval) list" where
  "dal_dict = [(u ''title'', PStr (u ''Dal'')), (u ''title_en'', PStr (u ''Lentil Stew'')),
               (u ''cuisine'', PStr (u ''punjabi''))]"

section \<open>A runtime for the examples\<close>

text \<open>
  \<open>repr\<close> of a string of ASCII characters: in single quotes, or in double quotes when the
  string holds a single quote and no double quote; the backslash and the quote in use
  are escaped, tab, newline and carriage return are written \<open>\t\<close>, \<open>\n\<close>, \<open>\r\<close>, and the
  other control characters \<open>\xNN\<close>.
\<close>

definition hex_digit :: "nat \<Rightarrow> nat" where
  "hex_digit d = (if d < 10 then 48 + d else 87 + d)"

definition repr_char :: "nat \<Rightarrow> nat \<Rightarrow> pystr" where
  "repr_char q c =
     (if c = 92 then [92, 92]
      else if c = q then [92, q]
      else if c = 9 then [92, 116]
      else if c = 10 then [92, 110]
      else if c = 13 then [92, 114]
      else if c < 32 \<or> c = 127 then [92, 120, hex_digit (c div 16), hex_digit (c mod 16)]
      else [c])"

definition repr_str :: "pystr \<Rightarrow> pystr" where
  "repr_str s =
     (let q = (if 39 \<in> set s \<and> 34 \<notin> set s then 34 else 39)
      in q # concat (map (repr_char q) s) @ [q])"

text \<open>
  \<open>repr\<close> of a value: a list as \<open>[a, b]\<close>, a dict as \<open>{k: a, l: b}\<close>. The shortest decimal
  numeral that \<open>repr\<close> prints for a float is not part of this runtime, which prints a
  question mark for it.
\<close>

fun ascii_repr :: "pyval \<Rightarrow> pystr" where
  "ascii_repr PNone = u ''None''"
| "ascii_repr (PBool b) = (if b then u ''True'' else u ''False'')"
| "ascii_repr (PInt i) = str_int i"
| "ascii_repr (PFloat f) = u ''?''"
| "ascii_repr (PStr s) = repr_str s"
| "ascii_repr (PList xs) = [91] @ join (u '', '') (map ascii_repr xs) @ [93]"
| "ascii_repr (PDict kvs) =
     [123] @ join (u '', '') (map (\<lambda>kv. repr_str (fst kv) @ u '': '' @ ascii_repr (snd kv)) kvs)
       @ [125]"

text \<open>
  The runtime of the examples. It is exact on ASCII text and on values that hold no
  float, which is all that the examples use; outside ASCII it maps the letters of ASCII
  only and reads no number.
\<close>

definition ascii_rt :: pyrt where
  "ascii_rt = \<lparr>unicode_lower = map ascii_lower,
               unicode_capitalize = (\<lambda>s. case s of [] \<Rightarrow> [] | c # cs \<Rightarrow> ascii_upper c # map ascii_lower cs),
               unicode_int = (\<lambda>s. None),
               repr = ascii_repr,
               sleep_max = 9223372036\<rparr>"

section \<open>Recipe Validator: the models of \<open>schemas.py\<close>\<close>

record Ingredient =
  name :: pystr
  quantity :: "pystr option"

record Step =
  number :: int
  instruction :: pystr

record NutritionFacts =
  calories :: "int option"
  protein_g :: "pyfloat option"
  carbs_g :: "pyfloat option"
  fat_g :: "pyfloat option"
  fiber_g :: "pyfloat option"
  sodium_mg :: "pyfloat option"

record Recipe =
  title :: pystr
  cuisine :: "pystr option"
  servings :: int
  total_time_minutes :: "int option"
  ingredients :: "Ingredient list"
  steps :: "Step list"
  nutrition :: "NutritionFacts option"
  tips :: "pystr list option"

text \<open>The dictionary of a model, \<open>.dict()\<close>: its fields in declaration order.\<close>

definition opt :: "('a \<Rightarrow> pyval) \<Rightarrow> 'a option \<Rightarrow> pyval" where
  "opt f x = (case x of None \<Rightarrow> PNone | Some a \<Rightarrow> f a)"

definition dict_of_ingredient :: "Ingredient \<Rightarrow> pyval" where
  "dict_of_ingredient i =
     PDict [(u ''name'', PStr (name i)), (u ''quantity'', opt PStr (quantity i))]"

definition dict_of_step :: "Step \<Rightarrow> pyval" where
  "dict_of_step s =
     PDict [(u ''number'', PInt (number s)), (u ''instruction'', PStr (instruction s))]"

definition dict_of_nutrition :: "NutritionFacts \<Rightarrow> pyval" where
  "dict_of_nutrition n =
     PDict [(u ''calories'', opt PInt (calories n)),
            (u ''protein_g'', opt PFloat (protein_g n)),
            (u ''carbs_g'', opt PFloat (carbs_g n)),
            (u ''fat_g'', opt PFloat (fat_g n)),
            (u ''fiber_g'', opt PFloat (fiber_g n)),
            (u ''sodium_mg'', opt PFloat (sodium_mg n))]"

definition dict_of_recipe :: "Recipe \<Rightarrow> pyval" where
  "dict_of_recipe r =
     PDict [(u ''title'', PStr (title r)),
            (u ''cuisine'', opt PStr (cuisine r)),
            (u ''servings'', PInt (servings r)),
            (u ''total_time_minutes'', opt PInt (total_time_minutes r)),
            (u ''ingredients'', PList (map dict_of_ingredient (ingredients r))),
            (u ''steps'', PList (map dict_of_step (steps r))),
            (u ''nutrition'', opt dict_of_nutrition (nutrition r)),
            (u ''tips'', opt (\<lambda>ts. PList (map PStr ts)) (tips r))]"

text \<open>
  The canonical Recipe shape: the constraints of the fields (\<open>ge=1\<close>, \<open>ge=0\<close>) and the
  non-empty strings and collections that the specification adds.
\<close>

definition float_nonneg :: "pyfloat \<Rightarrow> bool" where
  "float_nonneg f = (case f of FFin s m e \<Rightarrow> \<not> s \<or> m = 0 | FInf s \<Rightarrow> \<not> s | FNaN \<Rightarrow> False)"

definition opt_all :: "('a \<Rightarrow> bool) \<Rightarrow> 'a option \<Rightarrow> bool" where
  "opt_all P x = (case x of None \<Rightarrow> True | Some a \<Rightarrow> P a)"

definition canonical_nutrition :: "NutritionFacts \<Rightarrow> bool" where
  "canonical_nutrition n \<longleftrightarrow>
     opt_all (\<lambda>c. 0 \<le> c) (calories n) \<and> opt_all float_nonneg (protein_g n) \<and>
     opt_all float_nonneg (carbs_g n) \<and> opt_all float_nonneg (fat_g n) \<and>
     opt_all float_nonneg (fiber_g n) \<and> opt_all float_nonneg (sodium_mg n)"

definition canonical :: "Recipe \<Rightarrow> bool" where
  "canonical r \<longleftrightarrow>
     title r \<noteq> [] \<and> 1 \<le> servings r \<and> opt_all (\<lambda>t. 0 \<le> t) (total_time_minutes r) \<and>
     ingredients r \<noteq> [] \<and> list_all (\<lambda>i. name i \<noteq> []) (ingredients r) \<and>
     steps r \<noteq> [] \<and> list_all (\<lambda>s. 1 \<le> number s \<and> instruction s \<noteq> []) (steps r) \<and>
     opt_all canonical_nutrition (nutrition r)"

text \<open>
  \<open>Recipe(**data)\<close>. The field \<open>servings: int = Field(..., ge=1)\<close> is required, converted
  with \<open>int()\<close> unless it is an \<open>int\<close> already, and checked against its bound. The
  validators of the library for the other seven fields are not part of the repository:
  \<open>others\<close> stands for them, and gives the model they build, or nothing when one of them
  rejects its field. Any rejected field makes the construction fail.
\<close>

definition servings_field :: "pyrt \<Rightarrow> pyval \<Rightarrow> pyerr + int" where
  "servings_field rt data =
     (case data of
        PDict kvs \<Rightarrow>
          (case map_of kvs (u ''servings'') of
             None \<Rightarrow> Inl ValidationError
           | Some v \<Rightarrow>
               (case py_int rt v of
                  Inl e \<Rightarrow> Inl ValidationError
                | Inr n \<Rightarrow> if 1 \<le> n then Inr n else Inl ValidationError))
      | _ \<Rightarrow> Inl TypeError)"

definition validate_Recipe :: "(pyval \<Rightarrow> Recipe option) \<Rightarrow> pyrt \<Rightarrow> pyval \<Rightarrow> pyerr + Recipe" where
  "validate_Recipe others rt data =
     (case servings_field rt data of
        Inl e \<Rightarrow> Inl e
      | Inr n \<Rightarrow>
          (case others data of
             None \<Rightarrow> Inl ValidationError
           | Some r \<Rightarrow> Inr (r\<lparr>servings := n\<rparr>)))"

text \<open>Examples: a model output with loose ingredients, and two recipes.\<close>

definition loose_dict :: "(pystr \<times> pyval) list" where
  "loose_dict =
     [(u ''name'', PStr (u ''Khichdi'')),
      (u ''servings'', PStr (u ''four'')),
      (u ''total_time_minutes'', PInt 0),
      (u ''ingredient_list'',
         PList [PDict [(u ''ingredient'', PStr (u ''rice'')), (u ''qty'', PStr (u ''1 cup''))],
                PStr [],
                PStr (u ''dal'')])]"

definition zero_servings_dict :: "(pystr \<times> pyval) list" where
  "zero_servings_dict = [(u ''title'', PStr (u ''Tea'')), (u ''servings'', PInt 0)]"

definition plain_recipe :: Recipe where
  "plain_recipe =
     \<lparr>title = u ''Dal'', cuisine = None, servings = 2, total_time_minutes = Some 30,
      ingredients = [\<lparr>name = u ''lentils'', quantity = Some (u ''1 cup'')\<rparr>,
                     \<lparr>name = u ''salt'', quantity = None\<rparr>],
      steps = [\<lparr>number = 1, instruction = u ''Boil the lentils.''\<rparr>,
               \<lparr>number = 2, instruction = u ''Serve.''\<rparr>],
      nutrition = None, tips = Some [u ''Soak first.'']\<rparr>"

definition punjabi_recipe :: Recipe where
  "punjabi_recipe = plain_recipe\<lparr>cuisine := Some (u ''punjabi'')\<rparr>"

text \<open>A parsed dictionary whose ingredients are a null and a dict without a name.\<close>

definition nameless_dict :: "(pystr \<times> pyval) list" where
  "nameless_dict =
     [(u ''title'', PStr (u ''Tea'')),
      (u ''ingredients'', PList [PNone, PDict [(u ''qty'', PStr (u ''1 cup''))]])]"

section \<open>\<open>json.loads\<close>\<close>

text \<open>
  A decimal literal is rounded to the nearest binary64 value, ties to even, as
  \<open>float()\<close> does: \<open>float_of_ratio s n d\<close> is the float of \<open>n / d\<close> with sign \<open>s\<close>.
\<close>

fun bitlen :: "nat \<Rightarrow> nat" where
  "bitlen n = (if n = 0 then 0 else Suc (bitlen (n div 2)))"

definition round_half_even :: "nat \<Rightarrow> nat \<Rightarrow> nat" where
  "round_half_even n d =
     (let q = n div d; r = n mod d
      in if 2 * r < d then q else if d < 2 * r then q + 1 else if even q then q else q + 1)"

definition float_of_ratio :: "bool \<Rightarrow> nat \<Rightarrow> nat \<Rightarrow> pyfloat" where
  "float_of_ratio s n d =
     (if n = 0 then FFin s 0 0
      else
        let k = int (bitlen n) - int (bitlen d);
            fl = (if (if 0 \<le> k then d * 2 ^ nat k \<le> n else d \<le> n * 2 ^ nat (- k))
                  then k else k - 1);
            e = max (fl - 52) (- 1074);
            m = (if 0 \<le> e then round_half_even n (d * 2 ^ nat e)
                 else round_half_even (n * 2 ^ nat (- e)) d);
            m' = (if m = 2 ^ 53 then 2 ^ 52 else m);
            e' = (if m = 2 ^ 53 then e + 1 else e)
        in if 971 < e' then FInf s else FFin s m' e')"

definition digits_value :: "pystr \<Rightarrow> nat" where
  "digits_value ds = foldl (\<lambda>a c. 10 * a + (c - 48)) 0 ds"

definition float_of_decimal :: "bool \<Rightarrow> pystr \<Rightarrow> pystr \<Rightarrow> int \<Rightarrow> pyfloat" where
  "float_of_decimal s int_part frac_part ex =
     (let n = digits_value (int_part @ frac_part); e10 = ex - int (length frac_part)
      in if 0 \<le> e10 then float_of_ratio s (n * 10 ^ nat e10) 1
         else float_of_ratio s n (10 ^ nat (- e10)))"

text \<open>
  The number pattern \<open>(-?(?:0|[1-9][0-9]*))(\.[0-9]+)?([eE][-+]?[0-9]+)?\<close> of the scanner:
  an \<open>int\<close> without fraction and exponent, a \<open>float\<close> otherwise.
\<close>

definition scan_fraction :: "pystr \<Rightarrow> (pystr \<times> pystr) option" where
  "scan_fraction s =
     (case s of
        c # d # ds \<Rightarrow>
          if c = 46 \<and> is_digit d
          then Some (takeWhile is_digit (d # ds), dropWhile is_digit (d # ds))
          else None
      | _ \<Rightarrow> None)"

definition scan_exponent :: "pystr \<Rightarrow> (int \<times> pystr) option" where
  "scan_exponent s =
     (case s of
        [] \<Rightarrow> None
      | c # cs \<Rightarrow>
          if c = 101 \<or> c = 69 then
            (case cs of
               [] \<Rightarrow> None
             | d # ds \<Rightarrow>
                 if d = 45 \<or> d = 43 then
                   (case ds of
                      [] \<Rightarrow> None
                    | x # xs \<Rightarrow>
                        if is_digit x
                        then Some ((if d = 45 then - 1 else 1) *
                                     int (digits_value (takeWhile is_digit ds)),
                                   dropWhile is_digit ds)
                        else None)
                 else if is_digit d
                 then Some (int (digits_value (takeWhile is_digit cs)), dropWhile is_digit cs)
                 else None)
          else None)"

definition scan_number :: "pystr \<Rightarrow> (pyval \<times> pystr) option" where
  "scan_number s =
     (let neg = (s \<noteq> [] \<and> hd s = 45); s1 = (if neg then tl s else s)
      in case s1 of
           [] \<Rightarrow> None
         | d # ds \<Rightarrow>
             if is_digit d then
               (let int_part = (if d = 48 then [d] else d # takeWhile is_digit ds);
                    r1 = (if d = 48 then ds else dropWhile is_digit ds);
                    frac = scan_fraction r1;
                    r2 = (case frac of Some (f, r) \<Rightarrow> r | None \<Rightarrow> r1);
                    ex = scan_exponent r2;
                    r3 = (case ex of Some (x, r) \<Rightarrow> r | None \<Rightarrow> r2)
                in if frac = None \<and> ex = None
                   then Some (PInt ((if neg then - 1 else 1) * int (digits_value int_part)), r3)
                   else Some (PFloat (float_of_decimal neg int_part
                                        (case frac of Some (f, r) \<Rightarrow> f | None \<Rightarrow> [])
                                        (case ex of Some (x, r) \<Rightarrow> x | None \<Rightarrow> 0)), r3))
             else None)"

text \<open>
  A string, from after its opening quote: escapes are decoded, a raw control character
  is refused, and an escaped high surrogate followed by an escaped low one is one code
  point.
\<close>

definition hex_val :: "nat \<Rightarrow> nat option" where
  "hex_val c =
     (if 48 \<le> c \<and> c \<le> 57 then Some (c - 48)
      else if 97 \<le> c \<and> c \<le> 102 then Some (c - 87)
      else if 65 \<le> c \<and> c \<le> 70 then Some (c - 55)
      else None)"

definition hex4 :: "pystr \<Rightarrow> nat option" where
  "hex4 s =
     (if length s = 4 \<and> list_all (\<lambda>c. hex_val c \<noteq> None) s
      then Some (foldl (\<lambda>a c. 16 * a + the (hex_val c)) 0 s)
      else None)"

definition low_surrogate :: "pystr \<Rightarrow> nat option" where
  "low_surrogate s =
     (case s of
        a # b # hs \<Rightarrow>
          if a = 92 \<and> b = 117 then
            (case hex4 (take 4 hs) of
               Some l \<Rightarrow> if 56320 \<le> l \<and> l \<le> 57343 then Some l else None
             | None \<Rightarrow> None)
          else None
      | _ \<Rightarrow> None)"

definition simple_escape :: "nat \<Rightarrow> nat option" where
  "simple_escape e =
     (if e = 34 \<or> e = 92 \<or> e = 47 then Some e
      else if e = 98 then Some 8
      else if e = 102 then Some 12
      else if e = 110 then Some 10
      else if e = 114 then Some 13
      else if e = 116 then Some 9
      else None)"

definition cons_fst :: "'a \<Rightarrow> ('a list \<times> 'b) option \<Rightarrow> ('a list \<times> 'b) option" where
  "cons_fst x r = map_option (\<lambda>(xs, rest). (x # xs, rest)) r"

fun scan_string :: "pystr \<Rightarrow> (pystr \<times> pystr) option" where
  "scan_string [] = None"
| "scan_string (c # cs) =
     (if c = 34 then Some ([], cs)
      else if c = 92 then
        (case cs of
           [] \<Rightarrow> None
         | e # es \<Rightarrow>
             if e = 117 then
               (case hex4 (take 4 es) of
                  None \<Rightarrow> None
                | Some h \<Rightarrow>
                    (case (if 55296 \<le> h \<and> h \<le> 56319 then low_surrogate (drop 4 es) else None) of
                       Some l \<Rightarrow>
                         cons_fst (65536 + (h - 55296) * 1024 + (l - 56320))
                           (scan_string (drop 10 es))
                     | None \<Rightarrow> cons_fst h (scan_string (drop 4 es))))
             else (case simple_escape e of
                     None \<Rightarrow> None
                   | Some x \<Rightarrow> cons_fst x (scan_string es)))
      else if c < 32 then None
      else cons_fst c (scan_string cs))"

text \<open>\<open>dict(pairs)\<close>: a repeated key keeps its place and takes the last value.\<close>

fun dict_update :: "pystr \<Rightarrow> pyval \<Rightarrow> (pystr \<times> pyval) list \<Rightarrow> (pystr \<times> pyval) list" where
  "dict_update k v [] = [(k, v)]"
| "dict_update k v ((k', v') # kvs) =
     (if k' = k then (k, v) # kvs else (k', v') # dict_update k v kvs)"

definition dict_of_pairs :: "(pystr \<times> pyval) list \<Rightarrow> (pystr \<times> pyval) list" where
  "dict_of_pairs ps = foldl (\<lambda>d (k, v). dict_update k v d) [] ps"

definition skip_ws :: "pystr \<Rightarrow> pystr" where
  "skip_ws s = dropWhile (\<lambda>c. c = 32 \<or> c = 9 \<or> c = 10 \<or> c = 13) s"

text \<open>
  The scanner. Each call takes one unit of \<open>fuel\<close>, and a call consumes a character
  before it calls deeper, so \<open>2 * length s + 2\<close> units are never used up on a text \<open>s\<close>;
  running out of them stands for the recursion limit of the interpreter.
\<close>

fun scan_once :: "nat \<Rightarrow> pystr \<Rightarrow> pyerr + (pyval \<times> pystr)"
  and scan_array :: "nat \<Rightarrow> pystr \<Rightarrow> pyerr + (pyval list \<times> pystr)"
  and scan_object :: "nat \<Rightarrow> pystr \<Rightarrow> pyerr + ((pystr \<times> pyval) list \<times> pystr)" where
  "scan_once 0 s = Inl RecursionError"
| "scan_once (Suc fuel) s =
     (case s of
        [] \<Rightarrow> Inl JSONDecodeError
      | c # cs \<Rightarrow>
          if c = 34 then
            (case scan_string cs of
               None \<Rightarrow> Inl JSONDecodeError
             | Some (str, r) \<Rightarrow> Inr (PStr str, r))
          else if c = 123 then
            (case skip_ws cs of
               [] \<Rightarrow> Inl JSONDecodeError
             | d # ds \<Rightarrow>
                 if d = 125 then Inr (PDict [], ds)
                 else (case scan_object fuel (d # ds) of
                         Inl e \<Rightarrow> Inl e
                       | Inr (ps, r) \<Rightarrow> Inr (PDict (dict_of_pairs ps), r)))
          else if c = 91 then
            (case skip_ws cs of
               [] \<Rightarrow> Inl JSONDecodeError
             | d # ds \<Rightarrow>
                 if d = 93 then Inr (PList [], ds)
                 else (case scan_array fuel (d # ds) of
                         Inl e \<Rightarrow> Inl e
                       | Inr (vs, r) \<Rightarrow> Inr (PList vs, r)))
          else if prefix (u ''null'') s then Inr (PNone, drop 4 s)
          else if prefix (u ''true'') s then Inr (PBool True, drop 4 s)
          else if prefix (u ''false'') s then Inr (PBool False, drop 5 s)
          else (case scan_number s of
                  Some r \<Rightarrow> Inr r
                | None \<Rightarrow>
                    if prefix (u ''NaN'') s then Inr (PFloat FNaN, drop 3 s)
                    else if prefix (u ''Infinity'') s then Inr (PFloat (FInf False), drop 8 s)
                    else if prefix (u ''-Infinity'') s then Inr (PFloat (FInf True), drop 9 s)
                    else Inl JSONDecodeError))"
| "scan_array 0 s = Inl RecursionError"
| "scan_array (Suc fuel) s =
     (case scan_once fuel s of
        Inl e \<Rightarrow> Inl e
      | Inr (v, r) \<Rightarrow>
          (case skip_ws r of
             [] \<Rightarrow> Inl JSONDecodeError
           | c # cs \<Rightarrow>
               if c = 93 then Inr ([v], cs)
               else if c = 44 then
                 (case scan_array fuel (skip_ws cs) of
                    Inl e \<Rightarrow> Inl e
                  | Inr (vs, r') \<Rightarrow> Inr (v # vs, r'))
               else Inl JSONDecodeError))"
| "scan_object 0 s = Inl RecursionError"
| "scan_object (Suc fuel) s =
     (case s of
        [] \<Rightarrow> Inl JSONDecodeError
      | q # qs \<Rightarrow>
          if q = 34 then
            (case scan_string qs of
               None \<Rightarrow> Inl JSONDecodeError
             | Some (key, r) \<Rightarrow>
                 (case skip_ws r of
                    [] \<Rightarrow> Inl JSONDecodeError
                  | c # cs \<Rightarrow>
                      if c = 58 then
                        (case scan_once fuel (skip_ws cs) of
                           Inl e \<Rightarrow> Inl e
                         | Inr (v, r') \<Rightarrow>
                             (case skip_ws r' of
                                [] \<Rightarrow> Inl JSONDecodeError
                              | d # ds \<Rightarrow>
                                  if d = 125 then Inr ([(key, v)], ds)
                                  else if d = 44 then
                                    (case scan_object fuel (skip_ws ds) of
                                       Inl e \<Rightarrow> Inl e
                                     | Inr (ps, r'') \<Rightarrow> Inr ((key, v) # ps, r''))
                                  else Inl JSONDecodeError))
                      else Inl JSONDecodeError))
          else Inl JSONDecodeError)"

definition loads :: "pystr \<Rightarrow> pyerr + pyval" where
  "loads s =
     (if s \<noteq> [] \<and> hd s = 65279 then Inl JSONDecodeError
      else (case scan_once (2 * length s + 2) (skip_ws s) of
              Inl e \<Rightarrow> Inl e
            | Inr (v, r) \<Rightarrow> if skip_ws r = [] then Inr v else Inl JSONDecodeError))"

section \<open>Output Normalizer: \<open>_extract_and_normalize_json\<close>\<close>

text \<open>
  \<open>re.search(r"```(?:json)?\n([\s\S]*?)```", candidate, re.IGNORECASE)\<close>: the leftmost
  place where three backticks, then optionally \<open>json\<close> in any letter case, then a newline
  are followed somewhere by three backticks; group 1 is the text up to the first such
  three backticks. Under \<open>IGNORECASE\<close> the long s (code point 383) matches \<open>s\<close> as well.
\<close>

definition backticks :: pystr where
  "backticks = [96, 96, 96]"

definition json_tag :: "pystr \<Rightarrow> bool" where
  "json_tag t \<longleftrightarrow>
     (case t of
        [a, b, c, d] \<Rightarrow>
          (a = 106 \<or> a = 74) \<and> (b = 115 \<or> b = 83 \<or> b = 383) \<and> (c = 111 \<or> c = 79) \<and>
          (d = 110 \<or> d = 78)
      | _ \<Rightarrow> False)"

definition fence_open :: "pystr \<Rightarrow> pystr option" where
  "fence_open s =
     (if prefix backticks s then
        (let r = drop 3 s
         in if json_tag (take 4 r) \<and> prefix [10] (drop 4 r) then Some (drop 5 r)
            else if prefix [10] r then Some (drop 1 r)
            else None)
      else None)"

fun before_fence :: "pystr \<Rightarrow> pystr option" where
  "before_fence [] = None"
| "before_fence (c # cs) =
     (if prefix backticks (c # cs) then Some [] else map_option (Cons c) (before_fence cs))"

fun fence_search :: "pystr \<Rightarrow> pystr option" where
  "fence_search [] = None"
| "fence_search (c # cs) =
     (case fence_open (c # cs) of
        None \<Rightarrow> fence_search cs
      | Some body \<Rightarrow>
          (case before_fence body of
             None \<Rightarrow> fence_search cs
           | Some group1 \<Rightarrow> Some group1))"

text \<open>
  \<open>re.search(r"\{[\s\S]*\}\s*$", candidate)\<close>: it matches when the last character that
  is not a space is a closing brace and an opening brace occurs (then before it), and
  group 0 runs from the first opening brace to the end of the text.
\<close>

definition brace_search :: "pystr \<Rightarrow> pystr option" where
  "brace_search s =
     (case dropWhile is_space (rev s) of
        [] \<Rightarrow> None
      | c # cs \<Rightarrow>
          if c = 125 \<and> 123 \<in> set s then Some (dropWhile (\<lambda>x. x \<noteq> 123) s) else None)"

text \<open>
  \<open>re.sub(r",\s*(\]|\})", r"\1", candidate)\<close>: a comma, the spaces after it and the
  closing bracket or brace that follows become that bracket or brace.
\<close>

definition comma_target :: "pystr \<Rightarrow> (nat \<times> pystr) option" where
  "comma_target s =
     (case dropWhile is_space s of
        [] \<Rightarrow> None
      | y # ys \<Rightarrow> if y = 93 \<or> y = 125 then Some (y, ys) else None)"

function remove_trailing_commas :: "pystr \<Rightarrow> pystr" where
  "remove_trailing_commas [] = []"
| "remove_trailing_commas (x # xs) =
     (if x = 44 then
        (case comma_target xs of
           Some (y, ys) \<Rightarrow> y # remove_trailing_commas ys
         | None \<Rightarrow> x # remove_trailing_commas xs)
      else x # remove_trailing_commas xs)"
  by pat_completeness auto
termination
proof (relation "measure length")
  fix x :: nat and xs x2 y ys
  assume "comma_target xs = Some x2" and "(y, ys) = x2"
  then have "dropWhile is_space xs = y # ys"
    by (auto simp: comma_target_def split: list.splits if_splits)
  moreover have "length (dropWhile is_space xs) \<le> length xs"
    by (rule length_dropWhile_le)
  ultimately show "(ys, x # xs) \<in> measure length" by simp
qed simp_all

definition repair :: "pystr \<Rightarrow> pystr" where
  "repair text =
     (let candidate = strip text;
          candidate = (case fence_search candidate of
                         Some group1 \<Rightarrow> strip group1 | None \<Rightarrow> candidate);
          candidate = (case brace_search candidate of
                         Some group0 \<Rightarrow> group0 | None \<Rightarrow> candidate);
          candidate = (if 39 \<in> set candidate \<and> 34 \<notin> set candidate
                       then map (\<lambda>c. if c = 39 then 34 else c) candidate else candidate)
      in remove_trailing_commas candidate)"

definition extract_and_normalize_json :: "pystr \<Rightarrow> pyerr + pyval" where
  "extract_and_normalize_json text = loads (repair text)"

text \<open>
  The normalization of the orchestrators: \<open>data = _extract_and_normalize_json(text)\<close>,
  then \<open>data = _coerce_recipe_dict(data)\<close>.
\<close>

definition normalize :: "pyrt \<Rightarrow> pystr \<Rightarrow> pyerr + pyval" where
  "normalize rt text =
     (case extract_and_normalize_json text of
        Inl e \<Rightarrow> Inl e
      | Inr data \<Rightarrow> coerce_recipe_dict rt data)"

text \<open>
  Example texts: a step whose number is a word, a JSON object alone and in fences, and
  an object with three backticks inside a string.
\<close>

definition bad_step_text :: pystr where
  \<open>bad_step_text =
     u ''{"title": "Tea", "steps": [{"number": "one", "instruction": "Boil water"}]}''\<close>

definition tea_json :: pystr where
  \<open>tea_json = u ''{"title": "Tea", "servings": 1}''\<close>

definition fenced_tea :: pystr where
  "fenced_tea = backticks @ u ''json'' @ [10] @ tea_json @ [10] @ backticks"

definition python_fenced_tea :: pystr where
  "python_fenced_tea = backticks @ u ''python'' @ [10] @ tea_json @ [10] @ backticks"

definition tick_json :: pystr where
  \<open>tick_json = u ''{"title": "a```b"}''\<close>

definition fenced_tick :: pystr where
  "fenced_tick = backticks @ u ''json'' @ [10] @ tick_json @ [10] @ backticks"

section \<open>Properties of the Model Invoker\<close>

lemma backoff_Suc: "d # backoff (d * 2) n = backoff d (Suc n)"
proof -
  have "backoff d (Suc n) = map (\<lambda>i. d * 2 ^ i) (0 # map Suc [0..<n])"
    unfolding backoff_def by (simp only: upt_conv_Cons map_Suc_upt zero_less_Suc)
  then show ?thesis by (simp add: backoff_def comp_def mult.assoc)
qed

lemma retry_loop_stops:
  assumes "0 \<le> d" "a \<le> k" "k < a + todo" "int (a + todo) = m + 1"
    and "\<forall>i. a \<le> i \<and> i < k \<longrightarrow> transient_fail rt (call_fn i)"
    and "\<not> transient_fail rt (call_fn k)"
    and "\<forall>i. i < k - a \<longrightarrow> d * 2 ^ i \<le> sleep_max rt"
  shows "retry_loop rt call_fn m todo a d le slept =
           \<lparr>result = result_of (call_fn k), sleeps = slept @ backoff d (k - a), attempts = k\<rparr>"
  using assms
proof (induction todo arbitrary: a d le slept)
  case 0
  then show ?case by simp
next
  case (Suc todo)
  show ?case
  proof (cases "a = k")
    case True
    with Suc.prems(6) show ?thesis
      by (cases "call_fn k") (simp_all add: transient_fail_def result_of_def backoff_def)
  next
    case False
    with Suc.prems have lt: "a < k" by simp
    with Suc.prems(5) have "transient_fail rt (call_fn a)" by simp
    then obtain e where e: "call_fn a = Raises e" "is_transient rt e"
      by (cases "call_fn a") (simp_all add: transient_fail_def)
    from Suc.prems lt have notlast: "int a \<noteq> m" by linarith
    from Suc.prems(7) lt have fits: "d \<le> sleep_max rt"
      by (metis mult.right_neutral power_0 zero_less_diff)
    have later: "\<forall>i. i < k - Suc a \<longrightarrow> d * 2 * 2 ^ i \<le> sleep_max rt"
    proof (intro allI impI)
      fix i assume "i < k - Suc a"
      then have "Suc i < k - a" by simp
      with Suc.prems(7) have "d * 2 ^ Suc i \<le> sleep_max rt" by blast
      then show "d * 2 * 2 ^ i \<le> sleep_max rt" by (simp add: mult.assoc)
    qed
    have step: "retry_loop rt call_fn m (Suc todo) a d le slept =
                retry_loop rt call_fn m todo (Suc a) (d * 2) e (slept @ [d])"
      using e notlast Suc.prems(1) fits by simp
    have "retry_loop rt call_fn m todo (Suc a) (d * 2) e (slept @ [d]) =
            \<lparr>result = result_of (call_fn k),
             sleeps = (slept @ [d]) @ backoff (d * 2) (k - Suc a), attempts = k\<rparr>"
      using Suc.prems(1-6) lt later by (intro Suc.IH) auto
    moreover have "[d] @ backoff (d * 2) (k - Suc a) = backoff d (k - a)"
      using lt backoff_Suc [of d "k - Suc a"] by (simp add: Suc_diff_Suc)
    ultimately show ?thesis using step by simp
  qed
qed

lemma retry_loop_exhausts:
  assumes "0 \<le> d" "int (a + todo) = m"
    and "\<forall>i. a \<le> i \<and> i \<le> a + todo \<longrightarrow> transient_fail rt (call_fn i)"
    and "\<forall>i. i < todo \<longrightarrow> d * 2 ^ i \<le> sleep_max rt"
  shows "retry_loop rt call_fn m (Suc todo) a d le slept =
           \<lparr>result = result_of (call_fn (a + todo)), sleeps = slept @ backoff d todo,
            attempts = a + todo\<rparr>"
  using assms
proof (induction todo arbitrary: a d le slept)
  case 0
  then have "transient_fail rt (call_fn a)" by simp
  then obtain e where e: "call_fn a = Raises e" "is_transient rt e"
    by (cases "call_fn a") (simp_all add: transient_fail_def)
  with 0 show ?case by (simp add: result_of_def backoff_def)
next
  case (Suc todo)
  then have "transient_fail rt (call_fn a)" by simp
  then obtain e where e: "call_fn a = Raises e" "is_transient rt e"
    by (cases "call_fn a") (simp_all add: transient_fail_def)
  from Suc.prems have notlast: "int a \<noteq> m" by linarith
  from Suc.prems(4) have fits: "d \<le> sleep_max rt"
    by (metis mult.right_neutral power_0 zero_less_Suc)
  have later: "\<forall>i. i < todo \<longrightarrow> d * 2 * 2 ^ i \<le> sleep_max rt"
  proof (intro allI impI)
    fix i assume "i < todo"
    then have "Suc i < Suc todo" by simp
    with Suc.prems(4) have "d * 2 ^ Suc i \<le> sleep_max rt" by blast
    then show "d * 2 * 2 ^ i \<le> sleep_max rt" by (simp add: mult.assoc)
  qed
  have step: "retry_loop rt call_fn m (Suc (Suc todo)) a d le slept =
              retry_loop rt call_fn m (Suc todo) (Suc a) (d * 2) e (slept @ [d])"
    using e notlast Suc.prems(1) fits by simp
  have "retry_loop rt call_fn m (Suc todo) (Suc a) (d * 2) e (slept @ [d]) =
          \<lparr>result = result_of (call_fn (Suc a + todo)),
           sleeps = (slept @ [d]) @ backoff (d * 2) todo, attempts = Suc a + todo\<rparr>"
    using Suc.prems(1-3) later by (intro Suc.IH) auto
  then show ?case using step backoff_Suc [of d todo] by simp
qed

lemma call_with_retries_stops:
  assumes "0 \<le> d" "1 \<le> k" "int k \<le> m"
    and "\<forall>i. 1 \<le> i \<and> i < k \<longrightarrow> transient_fail rt (call_fn i)"
    and "\<not> transient_fail rt (call_fn k)"
    and "\<forall>i. i < k - 1 \<longrightarrow> d * 2 ^ i \<le> sleep_max rt"
  shows "call_with_retries rt call_fn m d =
           \<lparr>result = result_of (call_fn k), sleeps = backoff d (k - 1), attempts = k\<rparr>"
proof -
  have "retry_loop rt call_fn m (nat m) 1 d (Exc ''Exception'' (u ''Call failed after retries'')) [] =
          \<lparr>result = result_of (call_fn k), sleeps = [] @ backoff d (k - 1), attempts = k\<rparr>"
    using assms by (intro retry_loop_stops) auto
  then show ?thesis by (simp add: call_with_retries_def)
qed

lemma call_with_retries_exhausts:
  assumes "0 \<le> d" "1 \<le> m"
    and "\<forall>i. 1 \<le> i \<and> int i \<le> m \<longrightarrow> transient_fail rt (call_fn i)"
    and "\<forall>i. i < nat m - 1 \<longrightarrow> d * 2 ^ i \<le> sleep_max rt"
  shows "call_with_retries rt call_fn m d =
           \<lparr>result = result_of (call_fn (nat m)), sleeps = backoff d (nat m - 1),
            attempts = nat m\<rparr>"
proof -
  from assms(2) obtain n where n: "nat m = Suc n" by (cases "nat m") auto
  then have m: "m = int (1 + n)" using assms(2) by linarith
  have "retry_loop rt call_fn m (Suc n) 1 d (Exc ''Exception'' (u ''Call failed after retries'')) [] =
          \<lparr>result = result_of (call_fn (1 + n)), sleeps = [] @ backoff d n, attempts = 1 + n\<rparr>"
    using assms(1,3,4) m n by (intro retry_loop_exhausts) auto
  then show ?thesis using n by (simp add: call_with_retries_def)
qed

text \<open>
  Every run stops at one attempt \<open>k\<close>: all attempts before it failed transiently and were
  retried, and \<open>k\<close> is the first attempt that does not fail transiently, or the last one
  allowed.
\<close>

lemma call_with_retries_shape:
  assumes "0 \<le> d" "1 \<le> m" and "\<forall>i. i < nat m - 1 \<longrightarrow> d * 2 ^ i \<le> sleep_max rt"
  shows "\<exists>k. 1 \<le> k \<and> int k \<le> m \<and>
           call_with_retries rt call_fn m d =
             \<lparr>result = result_of (call_fn k), sleeps = backoff d (k - 1), attempts = k\<rparr>"
proof (cases "\<forall>i. 1 \<le> i \<and> int i \<le> m \<longrightarrow> transient_fail rt (call_fn i)")
  case True
  from call_with_retries_exhausts [OF assms(1,2) True assms(3)] assms(2) show ?thesis
    by (intro exI [of _ "nat m"]) auto
next
  case False
  define k where "k = (LEAST i. 1 \<le> i \<and> int i \<le> m \<and> \<not> transient_fail rt (call_fn i))"
  from False have ex: "\<exists>i. 1 \<le> i \<and> int i \<le> m \<and> \<not> transient_fail rt (call_fn i)" by blast
  have k: "1 \<le> k \<and> int k \<le> m \<and> \<not> transient_fail rt (call_fn k)"
    unfolding k_def by (rule LeastI_ex [OF ex])
  have least: "transient_fail rt (call_fn i)" if "1 \<le> i" "i < k" for i
  proof (rule ccontr)
    assume "\<not> transient_fail rt (call_fn i)"
    with that k have "1 \<le> i \<and> int i \<le> m \<and> \<not> transient_fail rt (call_fn i)" by simp
    then have "k \<le> i" unfolding k_def by (rule Least_le)
    with that show False by simp
  qed
  from k have "k - 1 \<le> nat m - 1" by linarith
  with assms(3) have "\<forall>i. i < k - 1 \<longrightarrow> d * 2 ^ i \<le> sleep_max rt" by simp
  then have "call_with_retries rt call_fn m d =
          \<lparr>result = result_of (call_fn k), sleeps = backoff d (k - 1), attempts = k\<rparr>"
    using assms(1) k least by (intro call_with_retries_stops) auto
  with k show ?thesis by blast
qed

text \<open>
  Claim C1. A failure is retried exactly when its lower-cased message contains one of
  the five markers. With at least one attempt allowed, a delay that is not negative and
  a longest delay \<open>initial_delay * 2 ^ (max_attempts - 2)\<close> that \<open>time.sleep\<close> accepts:
  the sleeps of a run are \<open>initial_delay * 2 ^ i\<close> for \<open>i = 0, 1, ...\<close>, one fewer than the
  attempts made, and there are at most \<open>max_attempts\<close> attempts; the first attempt that
  returns, or fails with a message without marker, ends the run with that value or that
  failure and no further sleep (none at all when it is the first attempt); and when all
  \<open>max_attempts\<close> attempts fail transiently, the failure of the last one is raised.
\<close>

theorem call_with_retries_backoff:
  fixes call_fn :: "nat \<Rightarrow> 'a outcome"
  assumes "1 \<le> max_attempts" and "0 \<le> initial_delay"
    and "2 \<le> max_attempts \<Longrightarrow> initial_delay * 2 ^ nat (max_attempts - 2) \<le> sleep_max rt"
  shows "(is_transient rt e \<longleftrightarrow>
            sublist (u ''429'') (py_lower rt (exc_msg e)) \<or>
            sublist (u ''resource exhausted'') (py_lower rt (exc_msg e)) \<or>
            sublist (u ''quota'') (py_lower rt (exc_msg e)) \<or>
            sublist (u ''deadline exceeded'') (py_lower rt (exc_msg e)) \<or>
            sublist (u ''timeout'') (py_lower rt (exc_msg e))) \<and>
         sleeps (call_with_retries rt call_fn max_attempts initial_delay) =
           map (\<lambda>i. initial_delay * 2 ^ i)
             [0..<attempts (call_with_retries rt call_fn max_attempts initial_delay) - 1] \<and>
         1 \<le> attempts (call_with_retries rt call_fn max_attempts initial_delay) \<and>
         int (attempts (call_with_retries rt call_fn max_attempts initial_delay)) \<le> max_attempts \<and>
         int (length (sleeps (call_with_retries rt call_fn max_attempts initial_delay)))
           \<le> max_attempts - 1 \<and>
         (\<forall>k. 1 \<le> k \<and> int k \<le> max_attempts \<and>
              (\<forall>i. 1 \<le> i \<and> i < k \<longrightarrow> transient_fail rt (call_fn i)) \<and>
              \<not> transient_fail rt (call_fn k) \<longrightarrow>
              call_with_retries rt call_fn max_attempts initial_delay =
                \<lparr>result = result_of (call_fn k),
                 sleeps = map (\<lambda>i. initial_delay * 2 ^ i) [0..<k - 1], attempts = k\<rparr>) \<and>
         (\<forall>x. call_fn 1 = Raises x \<and> \<not> is_transient rt x \<longrightarrow>
              call_with_retries rt call_fn max_attempts initial_delay =
                \<lparr>result = Inl x, sleeps = [], attempts = 1\<rparr>) \<and>
         (\<forall>x. (\<forall>i. 1 \<le> i \<and> int i \<le> max_attempts \<longrightarrow> transient_fail rt (call_fn i)) \<and>
              call_fn (nat max_attempts) = Raises x \<longrightarrow>
              call_with_retries rt call_fn max_attempts initial_delay =
                \<lparr>result = Inl x,
                 sleeps = map (\<lambda>i. initial_delay * 2 ^ i) [0..<nat max_attempts - 1],
                 attempts = nat max_attempts\<rparr>)"
proof -
  let ?r = "call_with_retries rt call_fn max_attempts initial_delay"
  have markers: "is_transient rt e \<longleftrightarrow>
            sublist (u ''429'') (py_lower rt (exc_msg e)) \<or>
            sublist (u ''resource exhausted'') (py_lower rt (exc_msg e)) \<or>
            sublist (u ''quota'') (py_lower rt (exc_msg e)) \<or>
            sublist (u ''deadline exceeded'') (py_lower rt (exc_msg e)) \<or>
            sublist (u ''timeout'') (py_lower rt (exc_msg e))"
    by (simp add: is_transient_def Let_def)
  have fits: "\<forall>i. i < nat max_attempts - 1 \<longrightarrow> initial_delay * 2 ^ i \<le> sleep_max rt"
  proof (intro allI impI)
    fix i assume i: "i < nat max_attempts - 1"
    then have m: "2 \<le> max_attempts" and le: "i \<le> nat (max_attempts - 2)" by linarith+
    have "(2::real) ^ i \<le> 2 ^ nat (max_attempts - 2)"
      using le by (intro power_increasing) simp_all
    then have "initial_delay * 2 ^ i \<le> initial_delay * 2 ^ nat (max_attempts - 2)"
      using assms(2) by (rule mult_left_mono)
    with assms(3) [OF m] show "initial_delay * 2 ^ i \<le> sleep_max rt" by simp
  qed
  from call_with_retries_shape [OF assms(2,1) fits, of call_fn]
  obtain k where k: "1 \<le> k" "int k \<le> max_attempts"
    "?r = \<lparr>result = result_of (call_fn k), sleeps = backoff initial_delay (k - 1), attempts = k\<rparr>"
    by blast
  have bounds: "sleeps ?r = map (\<lambda>i. initial_delay * 2 ^ i) [0..<attempts ?r - 1] \<and>
      1 \<le> attempts ?r \<and> int (attempts ?r) \<le> max_attempts \<and>
      int (length (sleeps ?r)) \<le> max_attempts - 1"
    using k by (simp add: backoff_def)
  have stops: "?r = \<lparr>result = result_of (call_fn k),
                 sleeps = map (\<lambda>i. initial_delay * 2 ^ i) [0..<k - 1], attempts = k\<rparr>"
    if "1 \<le> k \<and> int k \<le> max_attempts \<and>
        (\<forall>i. 1 \<le> i \<and> i < k \<longrightarrow> transient_fail rt (call_fn i)) \<and>
        \<not> transient_fail rt (call_fn k)" for k
  proof -
    from that have "k - 1 \<le> nat max_attempts - 1" by linarith
    with fits have "\<forall>i. i < k - 1 \<longrightarrow> initial_delay * 2 ^ i \<le> sleep_max rt" by simp
    with call_with_retries_stops [of initial_delay k max_attempts rt call_fn] that assms(2)
    show ?thesis by (simp add: backoff_def)
  qed
  have first: "?r = \<lparr>result = Inl x, sleeps = [], attempts = 1\<rparr>"
    if "call_fn 1 = Raises x \<and> \<not> is_transient rt x" for x
    using stops [of 1] that assms(1) by (simp add: transient_fail_def result_of_def)
  have exhausts: "?r = \<lparr>result = Inl x,
                 sleeps = map (\<lambda>i. initial_delay * 2 ^ i) [0..<nat max_attempts - 1],
                 attempts = nat max_attempts\<rparr>"
    if "(\<forall>i. 1 \<le> i \<and> int i \<le> max_attempts \<longrightarrow> transient_fail rt (call_fn i)) \<and>
        call_fn (nat max_attempts) = Raises x" for x
    using call_with_retries_exhausts [of initial_delay max_attempts rt call_fn] that
      assms(1,2) fits
    by (simp add: backoff_def result_of_def)
  from markers bounds stops first exhausts show ?thesis by blast
qed

lemma transient_429: "is_transient rt (Exc ''ResourceExhausted'' (u ''429 Too Many Requests''))"
  by (simp add: is_transient_def py_lower_def is_ascii_def ascii_lower_def u_def
      sublist_Cons_right)

theorem call_with_retries_backoff_witness:
  "(1::int) \<le> 4 \<and> (0::real) \<le> 1 \<and> (1::real) * 2 ^ nat (4 - 2) \<le> sleep_max ascii_rt \<and>
   call_with_retries ascii_rt flaky_call 4 1 =
     \<lparr>result = Inr (u ''ok''), sleeps = [1, 2, 4], attempts = 4\<rparr>"
proof -
  have tf: "\<forall>i. 1 \<le> i \<and> i < 4 \<longrightarrow> transient_fail ascii_rt (flaky_call i)"
    by (simp add: transient_fail_def flaky_call_def transient_429)
  have ok: "\<not> transient_fail ascii_rt (flaky_call 4)"
    by (simp add: transient_fail_def flaky_call_def)
  have h1: "(1::int) \<le> 4" and h2: "(0::real) \<le> 1" by simp_all
  have h3: "(1::real) * 2 ^ nat (4 - 2) \<le> sleep_max ascii_rt"
    by (simp add: ascii_rt_def)
  note stops = call_with_retries_backoff [OF h1 h2 h3, of _ flaky_call,
      THEN conjunct2, THEN conjunct2, THEN conjunct2, THEN conjunct2, THEN conjunct2,
      THEN conjunct1, THEN spec, of 4]
  from stops tf ok have "call_with_retries ascii_rt flaky_call 4 1 =
          \<lparr>result = result_of (flaky_call 4),
           sleeps = map (\<lambda>i. 1 * 2 ^ i) [0..<4 - 1], attempts = 4\<rparr>"
    by simp
  moreover have "map (\<lambda>i. (1::real) * 2 ^ i) [0..<4 - 1] = [1, 2, 4]"
    by (simp add: upt_rec)
  ultimately show ?thesis using h3 by (simp add: result_of_def flaky_call_def)
qed

section \<open>Properties of the Prompt Builder\<close>

lemma sublist_in_concat:
  assumes "y \<in> set xs" and "sublist x y"
  shows "sublist x (concat xs)"
proof -
  from assms(1) obtain as bs where xs: "xs = as @ y # bs"
    by (auto simp: in_set_conv_decomp)
  from assms(2) obtain ps ss where y: "y = ps @ x @ ss"
    by (auto simp: sublist_def)
  have "concat xs = (concat as @ ps) @ x @ (ss @ concat bs)"
    by (simp add: xs y)
  then show ?thesis by (metis sublist_appendI)
qed

lemma language_in_part: "sublist (language_instruction rt lang) (language_part rt lang ending)"
  unfolding language_part_def by (rule sublist_appendI)

lemma language_in_text_prompt:
  "sublist (language_instruction rt (language p)) (build_text_prompt rt p pick)"
  unfolding build_text_prompt_def
  by (rule sublist_in_concat [OF _ language_in_part [where ending = "u '' Keep measurements practical.''"]]) simp

lemma language_in_image_prompt:
  "sublist (language_instruction rt (language p)) (build_image_prompt rt p pick)"
  unfolding build_image_prompt_def
  by (rule sublist_in_concat [OF _ language_in_part [where ending = "u '' Keep instructions concise.''"]]) simp

lemma language_in_prompt_recipe_prompt:
  "sublist (language_instruction rt (prompt_language p)) (build_prompt_recipe_prompt rt p pick)"
  unfolding build_prompt_recipe_prompt_def
  by (rule sublist_in_concat [OF _ language_in_part [where ending = "[]"]]) simp

lemma script_keys:
  "map fst script_instructions =
     [u ''gujarati'', u ''hindi'', u ''marathi'', u ''bengali'', u ''tamil'', u ''telugu'',
      u ''kannada'', u ''malayalam'', u ''punjabi'']"
  by (simp add: script_instructions_def)

lemma script_keys_distinct: "distinct (map fst script_instructions)"
  unfolding script_keys by (simp add: u_def)

lemma script_key_nonempty: "(k, d) \<in> set script_instructions \<Longrightarrow> k \<noteq> []"
proof -
  assume "(k, d) \<in> set script_instructions"
  then have "k \<in> set (map fst script_instructions)" by force
  then show ?thesis unfolding script_keys by (auto simp: u_def)
qed

lemma lower_english: "py_lower rt (strip (u ''english'')) = u ''english''"
  by (simp add: py_lower_def strip_def is_ascii_def ascii_lower_def is_space_def u_def)

lemma english_unmapped: "map_of script_instructions (u ''english'') = None"
proof -
  have "u ''english'' \<notin> set (map fst script_instructions)"
    unfolding script_keys by (simp add: u_def)
  then show ?thesis by (simp add: map_of_eq_None_iff)
qed

lemma language_instruction_mapped:
  assumes "(py_lower rt (strip l), d) \<in> set script_instructions"
  shows "language_instruction rt (Some l) = d"
proof -
  from assms have ne: "py_lower rt (strip l) \<noteq> []" by (rule script_key_nonempty)
  have "l \<noteq> []"
  proof
    assume "l = []"
    then have "py_lower rt (strip l) = []" by (simp add: py_lower_def strip_def is_ascii_def)
    with ne show False by simp
  qed
  moreover from assms have "map_of script_instructions (py_lower rt (strip l)) = Some d"
    by (simp add: map_of_eq_Some_iff [OF script_keys_distinct])
  ultimately show ?thesis using ne by (simp add: language_instruction_def Let_def)
qed

lemma language_instruction_other:
  assumes "l \<noteq> []" and "py_lower rt (strip l) \<notin> fst ` set script_instructions"
  shows "language_instruction rt (Some l) =
           (if py_lower rt (strip l) = [] then u ''english'' else py_lower rt (strip l))"
proof -
  from assms(2) have "map_of script_instructions (py_lower rt (strip l)) = None"
    by (simp add: map_of_eq_None_iff)
  with assms(1) show ?thesis by (simp add: language_instruction_def Let_def)
qed

lemma language_instruction_default:
  assumes "lang = None \<or> lang = Some []"
  shows "language_instruction rt lang = u ''english''"
  using assms
  by (auto simp: language_instruction_def Let_def lower_english english_unmapped)

lemma directive_cases:
  assumes "sublist (language_instruction rt lang) P"
  shows "(\<forall>l d. lang = Some l \<and> (py_lower rt (strip l), d) \<in> set script_instructions \<longrightarrow>
            sublist d P) \<and>
         (\<forall>l. lang = Some l \<and> l \<noteq> [] \<and> py_lower rt (strip l) \<notin> fst ` set script_instructions \<longrightarrow>
            sublist (py_lower rt (strip l)) P) \<and>
         (lang = None \<or> lang = Some [] \<longrightarrow> sublist (u ''english'') P)"
proof (intro conjI allI impI)
  fix l d
  assume "lang = Some l \<and> (py_lower rt (strip l), d) \<in> set script_instructions"
  with assms language_instruction_mapped [of rt l d] show "sublist d P" by simp
next
  fix l
  assume a: "lang = Some l \<and> l \<noteq> [] \<and> py_lower rt (strip l) \<notin> fst ` set script_instructions"
  show "sublist (py_lower rt (strip l)) P"
  proof (cases "py_lower rt (strip l) = []")
    case True
    then show ?thesis by simp
  next
    case False
    with a assms language_instruction_other [of l rt] show ?thesis by simp
  qed
next
  assume "lang = None \<or> lang = Some []"
  with assms language_instruction_default [of lang rt] show "sublist (u ''english'') P" by simp
qed

text \<open>
  Claim C4. The table maps exactly gujarati, hindi, marathi, bengali, tamil, telugu,
  kannada, malayalam and punjabi. When the trimmed, lower-cased language is one of them,
  the prompt of \<open>_build_text_prompt\<close> contains the table's directive for it; for any other
  non-empty language it contains the trimmed, lower-cased name; without a language, or
  with the empty one, it contains \<open>english\<close>.
\<close>

theorem text_prompt_language_directive:
  "map fst script_instructions =
     [u ''gujarati'', u ''hindi'', u ''marathi'', u ''bengali'', u ''tamil'', u ''telugu'',
      u ''kannada'', u ''malayalam'', u ''punjabi''] \<and>
   (\<forall>l d. language p = Some l \<and> (py_lower rt (strip l), d) \<in> set script_instructions \<longrightarrow>
      sublist d (build_text_prompt rt p pick)) \<and>
   (\<forall>l. language p = Some l \<and> l \<noteq> [] \<and>
        py_lower rt (strip l) \<notin> fst ` set script_instructions \<longrightarrow>
      sublist (py_lower rt (strip l)) (build_text_prompt rt p pick)) \<and>
   (language p = None \<or> language p = Some [] \<longrightarrow>
      sublist (u ''english'') (build_text_prompt rt p pick))"
  using directive_cases [OF language_in_text_prompt [of rt p pick]] script_keys by blast

theorem text_prompt_language_directive_witness:
  "language hindi_request = Some (u '' Hindi '') \<and>
   (py_lower ascii_rt (strip (u '' Hindi '')),
    u ''Hindi script ('' @ [2342, 2375, 2357, 2344, 2366, 2327, 2352, 2368] @
    u '') - use actual Devanagari Unicode characters, NOT transliteration'')
     \<in> set script_instructions \<and>
   sublist
     (u ''Hindi script ('' @ [2342, 2375, 2357, 2344, 2366, 2327, 2352, 2368] @
      u '') - use actual Devanagari Unicode characters, NOT transliteration'')
     (build_text_prompt ascii_rt hindi_request 0)"
proof -
  have l: "language hindi_request = Some (u '' Hindi '')"
    by (simp add: hindi_request_def)
  have k: "py_lower ascii_rt (strip (u '' Hindi '')) = u ''hindi''"
    by (simp add: py_lower_def strip_def is_ascii_def ascii_lower_def is_space_def u_def)
  have m: "(u ''hindi'',
      u ''Hindi script ('' @ [2342, 2375, 2357, 2344, 2366, 2327, 2352, 2368] @
      u '') - use actual Devanagari Unicode characters, NOT transliteration'')
     \<in> set script_instructions"
    by (simp add: script_instructions_def)
  note mapped = text_prompt_language_directive [where p = hindi_request and rt = ascii_rt and pick = 0,
      THEN conjunct2, THEN conjunct1, THEN spec, THEN spec, THEN mp]
  from mapped [of "u '' Hindi ''"] l k m show ?thesis by simp
qed

text \<open>The other two builders carry the same directive.\<close>

lemma image_prompt_language_directive:
  "(\<forall>l d. language p = Some l \<and> (py_lower rt (strip l), d) \<in> set script_instructions \<longrightarrow>
      sublist d (build_image_prompt rt p pick)) \<and>
   (\<forall>l. language p = Some l \<and> l \<noteq> [] \<and>
        py_lower rt (strip l) \<notin> fst ` set script_instructions \<longrightarrow>
      sublist (py_lower rt (strip l)) (build_image_prompt rt p pick)) \<and>
   (language p = None \<or> language p = Some [] \<longrightarrow>
      sublist (u ''english'') (build_image_prompt rt p pick))"
  by (rule directive_cases [OF language_in_image_prompt])

lemma prompt_recipe_prompt_language_directive:
  "(\<forall>l d. prompt_language p = Some l \<and>
        (py_lower rt (strip l), d) \<in> set script_instructions \<longrightarrow>
      sublist d (build_prompt_recipe_prompt rt p pick)) \<and>
   (\<forall>l. prompt_language p = Some l \<and> l \<noteq> [] \<and>
        py_lower rt (strip l) \<notin> fst ` set script_instructions \<longrightarrow>
      sublist (py_lower rt (strip l)) (build_prompt_recipe_prompt rt p pick)) \<and>
   (prompt_language p = None \<or> prompt_language p = Some [] \<longrightarrow>
      sublist (u ''english'') (build_prompt_recipe_prompt rt p pick))"
  by (rule directive_cases [OF language_in_prompt_recipe_prompt])

section \<open>Properties of the title\<close>

lemma alt_loop_first:
  assumes "\<forall>k' \<in> set ks. \<not> truthy (dict_get data k')" and "truthy (dict_get data k)"
  shows "alt_loop rt data (ks @ k # ks') = Some (strip (py_str rt (dict_get data k)))"
  using assms by (induction ks) (simp_all add: Let_def)

lemma alt_loop_none:
  assumes "\<forall>k \<in> set ks. \<not> truthy (dict_get data k)"
  shows "alt_loop rt data ks = None"
  using assms by (induction ks) (simp_all add: Let_def)

lemma display_title_str:
  assumes "raw_title data = PStr t"
  shows "display_title rt data =
     Inr (PStr
       (let t1 = (case alt_loop rt data alt_keys of
                    Some alt \<Rightarrow> if alt \<noteq> [] \<and> \<not> sublist alt t then paren t alt else t
                  | None \<Rightarrow> t);
            c = strip (py_str rt (dict_get data (u ''cuisine'')))
        in if truthy (dict_get data (u ''cuisine'')) \<and> c \<noteq> []
           then paren t1 (capitalize rt c) else t1))"
  using assms
  by (simp add: display_title_def Let_def py_in_def py_str_def split: option.splits)

lemma coerce_title_field:
  assumes "coerce_recipe_dict rt (PDict data) = Inr out"
  shows "display_title rt data = Inr (field (u ''title'') out)"
  using assms
  by (auto simp: coerce_recipe_dict_def field_def dict_get_def split: sum.splits)

lemma dal_coerced:
  "coerce_recipe_dict rt (PDict dal_dict) =
     Inr (PDict
       [(u ''title'', PStr (u ''Dal (Lentil Stew) (Punjabi)'')),
        (u ''cuisine'', PStr (u ''punjabi'')),
        (u ''servings'', PInt 2),
        (u ''total_time_minutes'', PNone),
        (u ''ingredients'', PList [default_ingredient]),
        (u ''steps'', PList [default_step]),
        (u ''nutrition'', PNone),
        (u ''tips'', PNone)])"
  by (simp add: coerce_recipe_dict_def dal_dict_def display_title_def raw_title_def alt_keys_def
      dict_get_def dict_get_default_def py_or_def py_in_def py_str_def paren_def capitalize_def
      is_ascii_def ascii_upper_def ascii_lower_def strip_def is_space_def sublist_Cons_right
      servings_of_def total_time_of_def to_int_def py_int_def ingredients_of_def steps_of_def
      Let_def u_def)

text \<open>
  Claim C5. For a title that is a string: the first alternate-title key (in the order
  title_en, transliteration, name_en, english_title, recipe_name_en) whose value is
  true gives the alternate title, stripped; it is appended in parentheses unless it is
  empty or occurs in the title; a cuisine that is true and not blank is then appended
  in parentheses, capitalized. The result is the title of the coerced recipe, and for
  the title Dal, title_en Lentil Stew and cuisine punjabi it is
  Dal (Lentil Stew) (Punjabi).
\<close>

theorem coerced_title_composition:
  "(raw_title data = PStr t \<longrightarrow>
      display_title rt data =
        Inr (PStr
          (let t1 = (case alt_loop rt data alt_keys of
                       Some alt \<Rightarrow> if alt \<noteq> [] \<and> \<not> sublist alt t then paren t alt else t
                     | None \<Rightarrow> t);
               c = strip (py_str rt (dict_get data (u ''cuisine'')))
           in if truthy (dict_get data (u ''cuisine'')) \<and> c \<noteq> []
              then paren t1 (capitalize rt c) else t1))) \<and>
   (\<forall>ks k ks'. alt_keys = ks @ k # ks' \<and> (\<forall>k' \<in> set ks. \<not> truthy (dict_get data k')) \<and>
        truthy (dict_get data k) \<longrightarrow>
      alt_loop rt data alt_keys = Some (strip (py_str rt (dict_get data k)))) \<and>
   ((\<forall>k \<in> set alt_keys. \<not> truthy (dict_get data k)) \<longrightarrow> alt_loop rt data alt_keys = None) \<and>
   (\<forall>out. coerce_recipe_dict rt (PDict data) = Inr out \<longrightarrow>
      display_title rt data = Inr (field (u ''title'') out)) \<and>
   paren a b = a @ u '' ('' @ b @ u '')'' \<and>
   alt_keys = [u ''title_en'', u ''transliteration'', u ''name_en'', u ''english_title'',
               u ''recipe_name_en''] \<and>
   coerce_recipe_dict rt (PDict dal_dict) =
     Inr (PDict
       [(u ''title'', PStr (u ''Dal (Lentil Stew) (Punjabi)'')),
        (u ''cuisine'', PStr (u ''punjabi'')),
        (u ''servings'', PInt 2),
        (u ''total_time_minutes'', PNone),
        (u ''ingredients'', PList [default_ingredient]),
        (u ''steps'', PList [default_step]),
        (u ''nutrition'', PNone),
        (u ''tips'', PNone)])"
proof -
  show ?thesis
    using dal_coerced [of rt] display_title_str [of data t rt] alt_loop_first [of _ data _ rt]
      alt_loop_none [of alt_keys data rt] coerce_title_field [of rt data]
    by (auto simp: paren_def alt_keys_def)
qed

theorem coerced_title_composition_witness:
  "raw_title dal_dict = PStr (u ''Dal'') \<and>
   display_title ascii_rt dal_dict = Inr (PStr (u ''Dal (Lentil Stew) (Punjabi)''))"
proof -
  have r: "raw_title dal_dict = PStr (u ''Dal'')"
    by (simp add: raw_title_def dal_dict_def dict_get_def py_or_def u_def)
  note th = coerced_title_composition [where data = dal_dict and t = "u ''Dal''"
      and rt = ascii_rt, THEN conjunct1, THEN mp, OF r]
  have "display_title ascii_rt dal_dict = Inr (PStr (u ''Dal (Lentil Stew) (Punjabi)''))"
    unfolding th
    by (simp add: dal_dict_def alt_keys_def dict_get_def py_str_def paren_def capitalize_def
        is_ascii_def ascii_upper_def ascii_lower_def strip_def is_space_def sublist_Cons_right
        Let_def u_def)
  with r show ?thesis by simp
qed

section \<open>Properties of the coerced fields\<close>

lemma coerce_fields:
  assumes "coerce_recipe_dict rt (PDict data) = Inr out"
  shows "field (u ''servings'') out = PInt (servings_of rt data)"
    and "field (u ''total_time_minutes'') out = total_time_of rt data"
    and "field (u ''ingredients'') out = PList (ingredients_of rt data)"
    and "steps_of rt data = Inr ss \<Longrightarrow> field (u ''steps'') out = PList ss"
    and "\<exists>ss. steps_of rt data = Inr ss"
  using assms
  by (auto simp: coerce_recipe_dict_def field_def dict_get_def u_def split: sum.splits)

lemma coerce_returns:
  assumes "display_title rt data = Inr t" and "steps_of rt data = Inr ss"
  shows "\<exists>out. coerce_recipe_dict rt (PDict data) = Inr out"
  using assms by (simp add: coerce_recipe_dict_def)

lemma ingredients_loop_filter:
  "ingredients_loop rt items acc =
     acc @ map (\<lambda>item. PDict [(u ''name'', ingredient_name rt item),
                              (u ''quantity'', ingredient_qty item)])
             (filter (\<lambda>item. truthy (ingredient_name rt item)) items)"
  by (induction items arbitrary: acc) (simp_all add: Let_def)

lemma ingredients_of_shape:
  "ingredients_of rt data =
     (let items = (case py_or (dict_get data (u ''ingredients''))
                          (py_or (dict_get data (u ''ingredient_list'')) (PList [])) of
                     PList xs \<Rightarrow> xs | _ \<Rightarrow> []);
          kept = map (\<lambda>item. PDict [(u ''name'', ingredient_name rt item),
                                    (u ''quantity'', ingredient_qty item)])
                   (filter (\<lambda>item. truthy (ingredient_name rt item)) items)
      in if kept = []
         then [PDict [(u ''name'', PStr (u ''salt'')), (u ''quantity'', PStr (u ''to taste''))]]
         else kept)"
  by (simp add: ingredients_of_def Let_def ingredients_loop_filter default_ingredient_def
      split: pyval.splits)

text \<open>
  Claim C7, amended. The ingredients of the coerced recipe come from the list under
  \<open>ingredients\<close>, or else under \<open>ingredient_list\<close>: one \<open>{name, quantity}\<close> pair for every
  entry whose name is true, in order, and the single pair salt, to taste when none is
  left. For a dict entry the name is its \<open>name\<close>, else its \<open>ingredient\<close>, else the \<open>str()\<close>
  of the whole entry, and the quantity its \<open>quantity\<close>, else its \<open>qty\<close>; for any other
  entry the name is its \<open>str()\<close> and the quantity \<open>None\<close>. So an entry without a name of
  its own is kept under its \<open>str()\<close>: a null under the name \<open>None\<close>; a bare string is
  dropped exactly when it is empty.
\<close>

theorem ingredients_normalized:
  "(\<forall>out. coerce_recipe_dict rt (PDict data) = Inr out \<longrightarrow>
      field (u ''ingredients'') out =
        PList
          (let items = (case py_or (dict_get data (u ''ingredients''))
                               (py_or (dict_get data (u ''ingredient_list'')) (PList [])) of
                          PList xs \<Rightarrow> xs | _ \<Rightarrow> []);
               kept = map (\<lambda>item. PDict [(u ''name'', ingredient_name rt item),
                                         (u ''quantity'', ingredient_qty item)])
                        (filter (\<lambda>item. truthy (ingredient_name rt item)) items)
           in if kept = []
              then [PDict [(u ''name'', PStr (u ''salt'')),
                           (u ''quantity'', PStr (u ''to taste''))]]
              else kept)) \<and>
   ingredient_name rt (PDict i) =
     py_or (dict_get i (u ''name''))
       (py_or (dict_get i (u ''ingredient'')) (PStr (py_str rt (PDict i)))) \<and>
   ingredient_qty (PDict i) = py_or (dict_get i (u ''quantity'')) (dict_get i (u ''qty'')) \<and>
   ((\<forall>j. item \<noteq> PDict j) \<longrightarrow>
      ingredient_name rt item = PStr (py_str rt item) \<and> ingredient_qty item = PNone) \<and>
   ingredient_name rt PNone = PStr (u ''None'') \<and>
   (truthy (ingredient_name rt (PStr s)) \<longleftrightarrow> s \<noteq> [])"
proof -
  have bare: "ingredient_name rt item = PStr (py_str rt item) \<and> ingredient_qty item = PNone"
    if "\<forall>j. item \<noteq> PDict j"
    using that by (cases item) (simp_all add: ingredient_name_def ingredient_qty_def)
  have none: "ingredient_name rt PNone = PStr (u ''None'')"
    and str: "truthy (ingredient_name rt (PStr s)) \<longleftrightarrow> s \<noteq> []"
    by (simp_all add: ingredient_name_def py_str_def)
  show ?thesis
    using coerce_fields(3) [of rt data] ingredients_of_shape [of rt data] bare none str
    by (simp add: ingredient_name_def ingredient_qty_def)
qed

lemma loose_coerced:
  "coerce_recipe_dict rt (PDict loose_dict) =
     Inr (PDict
       [(u ''title'', PStr (u ''Khichdi'')),
        (u ''cuisine'', PNone),
        (u ''servings'', PInt 2),
        (u ''total_time_minutes'', PNone),
        (u ''ingredients'',
           PList [PDict [(u ''name'', PStr (u ''rice'')), (u ''quantity'', PStr (u ''1 cup''))],
                  PDict [(u ''name'', PStr (u ''dal'')), (u ''quantity'', PNone)]]),
        (u ''steps'', PList [default_step]),
        (u ''nutrition'', PNone),
        (u ''tips'', PNone)])"
  by (simp add: coerce_recipe_dict_def loose_dict_def display_title_def raw_title_def
      alt_keys_def dict_get_def dict_get_default_def py_or_def py_str_def
      servings_of_def total_time_of_def to_int_def py_int_def int_of_str_def ascii_int_def is_c_space_def
      unsigned_int_def is_digit_def is_ascii_def strip_def is_space_def
      ingredients_of_def ingredient_name_def ingredient_qty_def steps_of_def
      Let_def u_def)

theorem ingredients_normalized_witness:
  "(\<exists>out. coerce_recipe_dict ascii_rt (PDict loose_dict) = Inr out \<and>
      field (u ''ingredients'') out =
        PList [PDict [(u ''name'', PStr (u ''rice'')), (u ''quantity'', PStr (u ''1 cup''))],
               PDict [(u ''name'', PStr (u ''dal'')), (u ''quantity'', PNone)]])"
proof -
  from loose_coerced [of ascii_rt] obtain out
    where out: "coerce_recipe_dict ascii_rt (PDict loose_dict) = Inr out" by blast
  note th = ingredients_normalized [where rt = ascii_rt and data = loose_dict,
      THEN conjunct1, THEN spec, THEN mp, OF out]
  have "field (u ''ingredients'') out =
        PList [PDict [(u ''name'', PStr (u ''rice'')), (u ''quantity'', PStr (u ''1 cup''))],
               PDict [(u ''name'', PStr (u ''dal'')), (u ''quantity'', PNone)]]"
    unfolding th
    by (simp add: loose_dict_def dict_get_def py_or_def py_str_def ingredient_name_def
        ingredient_qty_def Let_def u_def)
  with out show ?thesis by blast
qed

text \<open>
  Claim C7 as first stated fails: a null entry and a dict entry with neither \<open>name\<close> nor
  \<open>ingredient\<close> have no name, and both are kept, under the names \<open>None\<close> and
  \<open>{'qty': '1 cup'}\<close>.
\<close>

theorem ingredients_nameless_kept:
  "coerce_recipe_dict ascii_rt (PDict nameless_dict) =
     Inr (PDict
       [(u ''title'', PStr (u ''Tea'')),
        (u ''cuisine'', PNone),
        (u ''servings'', PInt 2),
        (u ''total_time_minutes'', PNone),
        (u ''ingredients'',
           PList [PDict [(u ''name'', PStr (u ''None'')), (u ''quantity'', PNone)],
                  PDict [(u ''name'', PStr (u ''{'qty': '1 cup'}'')),
                         (u ''quantity'', PStr (u ''1 cup''))]]),
        (u ''steps'', PList [default_step]),
        (u ''nutrition'', PNone),
        (u ''tips'', PNone)])"
  by (simp add: coerce_recipe_dict_def nameless_dict_def display_title_def raw_title_def
      alt_keys_def dict_get_def dict_get_default_def py_or_def py_str_def
      servings_of_def total_time_of_def to_int_def py_int_def
      ingredients_of_def ingredient_name_def ingredient_qty_def steps_of_def
      ascii_rt_def repr_str_def repr_char_def Let_def u_def)

lemma fallbacks_nonempty_returns:
  assumes "map_of data (u ''steps'') = None \<and> map_of data (u ''instructions'') = None"
    and "\<exists>t. raw_title data = PStr t"
  shows "\<exists>out. coerce_recipe_dict rt (PDict data) = Inr out"
proof -
  from assms(2) obtain t where "raw_title data = PStr t" by blast
  from display_title_str [OF this] obtain t' where "display_title rt data = Inr t'" by blast
  moreover from assms(1) have "steps_of rt data = Inr [default_step]"
    by (simp add: steps_of_def dict_get_def py_or_def)
  ultimately show ?thesis by (rule coerce_returns)
qed

text \<open>
  Claim C8. Without the keys \<open>ingredients\<close>, \<open>ingredient_list\<close>, \<open>steps\<close> and
  \<open>instructions\<close>, a coerced recipe has exactly the fallback ingredient salt, to taste and
  exactly the fallback step numbered 1, and the coercion does return one when the title
  is a string; and whatever the dictionary, the ingredients and the steps of a coerced
  recipe are not empty.
\<close>

theorem fallbacks_nonempty:
  "(\<forall>out. map_of data (u ''ingredients'') = None \<and> map_of data (u ''ingredient_list'') = None \<and>
        map_of data (u ''steps'') = None \<and> map_of data (u ''instructions'') = None \<and>
        coerce_recipe_dict rt (PDict data) = Inr out \<longrightarrow>
      field (u ''ingredients'') out =
        PList [PDict [(u ''name'', PStr (u ''salt'')), (u ''quantity'', PStr (u ''to taste''))]] \<and>
      field (u ''steps'') out =
        PList [PDict [(u ''number'', PInt 1),
                      (u ''instruction'', PStr (u ''Mix ingredients and cook until done.''))]]) \<and>
   (map_of data (u ''steps'') = None \<and> map_of data (u ''instructions'') = None \<and>
      (\<exists>t. raw_title data = PStr t) \<longrightarrow>
      (\<exists>out. coerce_recipe_dict rt (PDict data) = Inr out)) \<and>
   (\<forall>out. coerce_recipe_dict rt (PDict data) = Inr out \<longrightarrow>
      (\<exists>x xs. field (u ''ingredients'') out = PList (x # xs)) \<and>
      (\<exists>y ys. field (u ''steps'') out = PList (y # ys)))"
proof (intro conjI allI impI)
  fix out
  assume a: "map_of data (u ''ingredients'') = None \<and> map_of data (u ''ingredient_list'') = None \<and>
        map_of data (u ''steps'') = None \<and> map_of data (u ''instructions'') = None \<and>
        coerce_recipe_dict rt (PDict data) = Inr out"
  then have out: "coerce_recipe_dict rt (PDict data) = Inr out" by simp
  from a have "ingredients_of rt data = [default_ingredient]"
    by (simp add: ingredients_of_def dict_get_def py_or_def)
  with coerce_fields(3) [OF out]
  show "field (u ''ingredients'') out =
        PList [PDict [(u ''name'', PStr (u ''salt'')), (u ''quantity'', PStr (u ''to taste''))]]"
    by (simp add: default_ingredient_def)
  from a have "steps_of rt data = Inr [default_step]"
    by (simp add: steps_of_def dict_get_def py_or_def)
  with coerce_fields(4) [OF out]
  show "field (u ''steps'') out =
        PList [PDict [(u ''number'', PInt 1),
                      (u ''instruction'', PStr (u ''Mix ingredients and cook until done.''))]]"
    by (simp add: default_step_def)
next
  assume a: "map_of data (u ''steps'') = None \<and> map_of data (u ''instructions'') = None \<and>
      (\<exists>t. raw_title data = PStr t)"
  then obtain t where "raw_title data = PStr t" by blast
  from display_title_str [OF this] obtain t' where "display_title rt data = Inr t'" by blast
  moreover from a have "steps_of rt data = Inr [default_step]"
    by (simp add: steps_of_def dict_get_def py_or_def)
  ultimately show "\<exists>out. coerce_recipe_dict rt (PDict data) = Inr out"
    by (rule coerce_returns)
next
  fix out
  assume out: "coerce_recipe_dict rt (PDict data) = Inr out"
  have "ingredients_of rt data \<noteq> []"
    by (simp add: ingredients_of_def Let_def)
  with coerce_fields(3) [OF out]
  show "\<exists>x xs. field (u ''ingredients'') out = PList (x # xs)"
    by (cases "ingredients_of rt data") simp_all
next
  fix out
  assume out: "coerce_recipe_dict rt (PDict data) = Inr out"
  from coerce_fields(5) [OF out] obtain ss where ss: "steps_of rt data = Inr ss" by blast
  then have "ss \<noteq> []"
    by (auto simp: steps_of_def Let_def split: sum.splits if_splits)
  with coerce_fields(4) [OF out ss]
  show "\<exists>y ys. field (u ''steps'') out = PList (y # ys)"
    by (cases ss) simp_all
qed

theorem fallbacks_nonempty_witness:
  "map_of dal_dict (u ''ingredients'') = None \<and> map_of dal_dict (u ''ingredient_list'') = None \<and>
   map_of dal_dict (u ''steps'') = None \<and> map_of dal_dict (u ''instructions'') = None \<and>
   (\<exists>out. coerce_recipe_dict ascii_rt (PDict dal_dict) = Inr out \<and>
      field (u ''ingredients'') out =
        PList [PDict [(u ''name'', PStr (u ''salt'')), (u ''quantity'', PStr (u ''to taste''))]] \<and>
      field (u ''steps'') out =
        PList [PDict [(u ''number'', PInt 1),
                      (u ''instruction'', PStr (u ''Mix ingredients and cook until done.''))]])"
proof -
  have keys: "map_of dal_dict (u ''ingredients'') = None \<and>
      map_of dal_dict (u ''ingredient_list'') = None \<and>
      map_of dal_dict (u ''steps'') = None \<and> map_of dal_dict (u ''instructions'') = None"
    by (simp add: dal_dict_def u_def)
  have "\<exists>t. raw_title dal_dict = PStr t"
    by (simp add: raw_title_def dal_dict_def dict_get_def py_or_def u_def)
  with keys fallbacks_nonempty [where rt = ascii_rt and data = dal_dict,
      THEN conjunct2, THEN conjunct1]
  obtain out where out: "coerce_recipe_dict ascii_rt (PDict dal_dict) = Inr out" by blast
  with keys fallbacks_nonempty [where rt = ascii_rt and data = dal_dict,
      THEN conjunct1, THEN spec, of out]
  show ?thesis by blast
qed

text \<open>
  Claim C9. The servings of the coerced recipe are \<open>int()\<close> of the source value, with 2
  when there is none or \<open>int()\<close> fails; its total time is \<open>int()\<close> of \<open>total_time_minutes\<close>,
  or of \<open>time_minutes\<close> when that key is missing, and \<open>None\<close> when there is neither, when
  \<open>int()\<close> fails, and when the result is 0.
\<close>

theorem servings_and_time_coerced:
  "(\<forall>out. coerce_recipe_dict rt (PDict data) = Inr out \<longrightarrow>
      field (u ''servings'') out =
        PInt (case py_int rt (dict_get_default data (u ''servings'') (PInt 2)) of
                Inr n \<Rightarrow> n | Inl e \<Rightarrow> 2) \<and>
      field (u ''total_time_minutes'') out =
        (case py_int rt (dict_get_default data (u ''total_time_minutes'')
                           (dict_get_default data (u ''time_minutes'') (PInt 0))) of
           Inr n \<Rightarrow> if n = 0 then PNone else PInt n
         | Inl e \<Rightarrow> PNone)) \<and>
   dict_get_default data k dflt = (case map_of data k of Some v \<Rightarrow> v | None \<Rightarrow> dflt)"
proof -
  have "field (u ''servings'') out =
        PInt (case py_int rt (dict_get_default data (u ''servings'') (PInt 2)) of
                Inr n \<Rightarrow> n | Inl e \<Rightarrow> 2) \<and>
      field (u ''total_time_minutes'') out =
        (case py_int rt (dict_get_default data (u ''total_time_minutes'')
                           (dict_get_default data (u ''time_minutes'') (PInt 0))) of
           Inr n \<Rightarrow> if n = 0 then PNone else PInt n
         | Inl e \<Rightarrow> PNone)"
    if "coerce_recipe_dict rt (PDict data) = Inr out" for out
    using coerce_fields(1,2) [OF that]
    by (simp add: servings_of_def total_time_of_def to_int_def Let_def split: sum.splits)
  then show ?thesis by (simp add: dict_get_default_def)
qed

theorem servings_and_time_coerced_witness:
  "(\<exists>out. coerce_recipe_dict ascii_rt (PDict loose_dict) = Inr out \<and>
      py_int ascii_rt (dict_get_default loose_dict (u ''servings'') (PInt 2)) = Inl ValueError \<and>
      field (u ''servings'') out = PInt 2 \<and>
      py_int ascii_rt (dict_get_default loose_dict (u ''total_time_minutes'')
                         (dict_get_default loose_dict (u ''time_minutes'') (PInt 0))) = Inr 0 \<and>
      field (u ''total_time_minutes'') out = PNone)"
proof -
  from loose_coerced [of ascii_rt] obtain out
    where out: "coerce_recipe_dict ascii_rt (PDict loose_dict) = Inr out" by blast
  note th = servings_and_time_coerced [where rt = ascii_rt and data = loose_dict,
      THEN conjunct1, THEN spec, THEN mp, OF out]
  have s: "py_int ascii_rt (dict_get_default loose_dict (u ''servings'') (PInt 2)) = Inl ValueError"
    by (simp add: loose_dict_def dict_get_default_def py_int_def int_of_str_def ascii_int_def is_c_space_def
        unsigned_int_def is_digit_def is_ascii_def strip_def is_space_def u_def)
  have t: "py_int ascii_rt (dict_get_default loose_dict (u ''total_time_minutes'')
             (dict_get_default loose_dict (u ''time_minutes'') (PInt 0))) = Inr 0"
    by (simp add: loose_dict_def dict_get_default_def py_int_def u_def)
  from th s t out show ?thesis by simp
qed

section \<open>Coercion of a dictionary in canonical shape\<close>

lemma ingredient_of_canonical:
  assumes "name i \<noteq> []" and "quantity i \<noteq> Some []"
  shows "ingredient_name rt (dict_of_ingredient i) = PStr (name i)"
    and "ingredient_qty (dict_of_ingredient i) = opt PStr (quantity i)"
  using assms
  by (auto simp: ingredient_name_def ingredient_qty_def dict_of_ingredient_def dict_get_def
      py_or_def opt_def u_def split: option.splits)

lemma ingredients_loop_canonical:
  assumes "list_all (\<lambda>i. name i \<noteq> [] \<and> quantity i \<noteq> Some []) is"
  shows "ingredients_loop rt (map dict_of_ingredient is) acc = acc @ map dict_of_ingredient is"
  using assms
proof (induction "is" arbitrary: acc)
  case Nil
  then show ?case by simp
next
  case (Cons i "is")
  then have "name i \<noteq> []" "quantity i \<noteq> Some []" by simp_all
  from ingredient_of_canonical [OF this] Cons show ?case
    by (simp add: Let_def dict_of_ingredient_def)
qed

lemma step_of_canonical:
  assumes "number s \<noteq> 0" and "instruction s \<noteq> []"
  shows "step_instruction rt (dict_of_step s) = PStr (instruction s)"
    and "step_number (dict_of_step s) idx = PInt (number s)"
  using assms
  by (auto simp: step_instruction_def step_number_def dict_of_step_def dict_get_def
      py_or_def u_def)

lemma steps_loop_canonical:
  assumes "list_all (\<lambda>s. number s \<noteq> 0 \<and> instruction s \<noteq> []) ss"
  shows "steps_loop rt idx (map dict_of_step ss) acc = Inr (acc @ map dict_of_step ss)"
  using assms
proof (induction ss arbitrary: idx acc)
  case Nil
  then show ?case by simp
next
  case (Cons s ss)
  then have "number s \<noteq> 0" "instruction s \<noteq> []" by simp_all
  from step_of_canonical [OF this] Cons show ?case
    by (simp add: Let_def py_int_def dict_of_step_def)
qed

lemma canonical_title:
  assumes "title r \<noteq> []" and "cuisine r = None \<or> (\<exists>c. cuisine r = Some c \<and> strip c = [])"
  shows "\<exists>kvs. dict_of_recipe r = PDict kvs \<and> display_title rt kvs = Inr (PStr (title r))"
proof -
  let ?kvs = "[(u ''title'', PStr (title r)),
            (u ''cuisine'', opt PStr (cuisine r)),
            (u ''servings'', PInt (servings r)),
            (u ''total_time_minutes'', opt PInt (total_time_minutes r)),
            (u ''ingredients'', PList (map dict_of_ingredient (ingredients r))),
            (u ''steps'', PList (map dict_of_step (steps r))),
            (u ''nutrition'', opt dict_of_nutrition (nutrition r)),
            (u ''tips'', opt (\<lambda>ts. PList (map PStr ts)) (tips r))]"
  have raw: "raw_title ?kvs = PStr (title r)"
    using assms(1) by (simp add: raw_title_def dict_get_def py_or_def u_def)
  have alt: "alt_loop rt ?kvs alt_keys = None"
    by (simp add: alt_keys_def dict_get_def Let_def u_def)
  have c: "dict_get ?kvs (u ''cuisine'') = opt PStr (cuisine r)"
    by (simp add: dict_get_def u_def)
  have "display_title rt ?kvs = Inr (PStr (title r))"
    unfolding display_title_str [OF raw] alt c
    using assms(2) by (auto simp: opt_def py_str_def Let_def)
  then show ?thesis by (simp add: dict_of_recipe_def)
qed

lemma coerce_canonical:
  assumes "title r \<noteq> []"
    and "cuisine r = None \<or> (\<exists>c. cuisine r = Some c \<and> strip c = [])"
    and "total_time_minutes r \<noteq> Some 0"
    and "ingredients r \<noteq> []"
    and "list_all (\<lambda>i. name i \<noteq> [] \<and> quantity i \<noteq> Some []) (ingredients r)"
    and "steps r \<noteq> []"
    and "list_all (\<lambda>s. number s \<noteq> 0 \<and> instruction s \<noteq> []) (steps r)"
  shows "coerce_recipe_dict rt (dict_of_recipe r) = Inr (dict_of_recipe r)"
proof -
  from canonical_title [OF assms(1,2), of rt] obtain kvs
    where kvs: "dict_of_recipe r = PDict kvs" "display_title rt kvs = Inr (PStr (title r))"
    by blast
  then have k: "kvs = [(u ''title'', PStr (title r)),
            (u ''cuisine'', opt PStr (cuisine r)),
            (u ''servings'', PInt (servings r)),
            (u ''total_time_minutes'', opt PInt (total_time_minutes r)),
            (u ''ingredients'', PList (map dict_of_ingredient (ingredients r))),
            (u ''steps'', PList (map dict_of_step (steps r))),
            (u ''nutrition'', opt dict_of_nutrition (nutrition r)),
            (u ''tips'', opt (\<lambda>ts. PList (map PStr ts)) (tips r))]"
    by (simp add: dict_of_recipe_def)
  have s: "servings_of rt kvs = servings r"
    unfolding k by (simp add: servings_of_def dict_get_default_def to_int_def py_int_def u_def)
  have t: "total_time_of rt kvs = opt PInt (total_time_minutes r)"
    unfolding k using assms(3)
    by (auto simp: total_time_of_def dict_get_default_def to_int_def py_int_def opt_def
        Let_def u_def split: option.splits)
  have i: "ingredients_of rt kvs = map dict_of_ingredient (ingredients r)"
    unfolding k using assms(4) ingredients_loop_canonical [OF assms(5), of rt "[]"]
    by (simp add: ingredients_of_def dict_get_def py_or_def Let_def u_def)
  have st: "steps_of rt kvs = Inr (map dict_of_step (steps r))"
    unfolding k using assms(6) steps_loop_canonical [OF assms(7), of rt 1 "[]"]
    by (simp add: steps_of_def dict_get_def py_or_def Let_def u_def)
  have g: "dict_get kvs (u ''cuisine'') = opt PStr (cuisine r)"
    "dict_get kvs (u ''nutrition'') = opt dict_of_nutrition (nutrition r)"
    "dict_get kvs (u ''tips'') = opt (\<lambda>ts. PList (map PStr ts)) (tips r)"
    unfolding k by (simp_all add: dict_get_def u_def)
  show ?thesis
    unfolding kvs(1) by (simp add: coerce_recipe_dict_def kvs(2) s t i st g) (simp add: k)
qed

text \<open>
  Claim C2, as the code has it. A dictionary in canonical Recipe shape is returned
  unchanged by the coercion when it has no cuisine (or a blank one), when its total time
  is not 0, and when no quantity is the empty string.
\<close>

theorem coerce_canonical_fixed:
  assumes "canonical r"
    and "cuisine r = None \<or> (\<exists>c. cuisine r = Some c \<and> strip c = [])"
    and "total_time_minutes r \<noteq> Some 0"
    and "list_all (\<lambda>i. quantity i \<noteq> Some []) (ingredients r)"
  shows "coerce_recipe_dict rt (dict_of_recipe r) = Inr (dict_of_recipe r)"
proof -
  from assms(1) have c: "title r \<noteq> []" "ingredients r \<noteq> []" "steps r \<noteq> []"
    "list_all (\<lambda>i. name i \<noteq> []) (ingredients r)"
    "list_all (\<lambda>s. 1 \<le> number s \<and> instruction s \<noteq> []) (steps r)"
    by (simp_all add: canonical_def)
  from c(4) assms(4) have i: "list_all (\<lambda>i. name i \<noteq> [] \<and> quantity i \<noteq> Some []) (ingredients r)"
    by (simp add: list_all_iff)
  from c(5) have s: "list_all (\<lambda>s. number s \<noteq> 0 \<and> instruction s \<noteq> []) (steps r)"
    by (auto simp: list_all_iff)
  from c(1) assms(2,3) c(2) i c(3) s show ?thesis by (rule coerce_canonical)
qed

lemma plain_canonical: "canonical plain_recipe"
  by (simp add: canonical_def plain_recipe_def opt_all_def u_def)

theorem coerce_canonical_fixed_witness:
  "canonical plain_recipe \<and> cuisine plain_recipe = None \<and>
   total_time_minutes plain_recipe \<noteq> Some 0 \<and>
   list_all (\<lambda>i. quantity i \<noteq> Some []) (ingredients plain_recipe) \<and>
   coerce_recipe_dict ascii_rt (dict_of_recipe plain_recipe) = Inr (dict_of_recipe plain_recipe)"
proof -
  have c: "cuisine plain_recipe = None \<or> (\<exists>c. cuisine plain_recipe = Some c \<and> strip c = [])"
    and n: "cuisine plain_recipe = None"
    and t: "total_time_minutes plain_recipe \<noteq> Some 0"
    and q: "list_all (\<lambda>i. quantity i \<noteq> Some []) (ingredients plain_recipe)"
    by (simp_all add: plain_recipe_def u_def)
  from coerce_canonical_fixed [OF plain_canonical c t q, of ascii_rt] plain_canonical n t q
  show ?thesis by simp
qed

text \<open>
  The claim as it is stated fails on a canonical dictionary with a cuisine: the coercion
  appends the cuisine to the title, each time it is applied.
\<close>

theorem coerce_canonical_counterexample:
  "canonical punjabi_recipe \<and>
   coerce_recipe_dict ascii_rt (dict_of_recipe punjabi_recipe) =
     Inr (dict_of_recipe (punjabi_recipe\<lparr>title := u ''Dal (Punjabi)''\<rparr>)) \<and>
   coerce_recipe_dict ascii_rt (dict_of_recipe punjabi_recipe) \<noteq>
     Inr (dict_of_recipe punjabi_recipe)"
proof -
  have c: "canonical punjabi_recipe"
    by (simp add: canonical_def punjabi_recipe_def plain_recipe_def opt_all_def u_def)
  have e: "coerce_recipe_dict ascii_rt (dict_of_recipe punjabi_recipe) =
     Inr (dict_of_recipe (punjabi_recipe\<lparr>title := u ''Dal (Punjabi)''\<rparr>))"
    by (simp add: punjabi_recipe_def plain_recipe_def dict_of_recipe_def dict_of_ingredient_def
        dict_of_step_def opt_def coerce_recipe_dict_def display_title_def raw_title_def
        alt_keys_def dict_get_def dict_get_default_def py_or_def py_in_def py_str_def paren_def
        capitalize_def is_ascii_def ascii_upper_def ascii_lower_def strip_def is_space_def
        servings_of_def total_time_of_def to_int_def py_int_def ingredients_of_def
        ingredient_name_def ingredient_qty_def steps_of_def step_instruction_def
        step_number_def Let_def u_def)
  have "dict_of_recipe (punjabi_recipe\<lparr>title := u ''Dal (Punjabi)''\<rparr>) \<noteq>
        dict_of_recipe punjabi_recipe"
    by (simp add: punjabi_recipe_def plain_recipe_def dict_of_recipe_def u_def)
  with c e show ?thesis by simp
qed

section \<open>Normalization and validation of the servings\<close>

lemma coerce_servings_entry:
  assumes "coerce_recipe_dict rt (PDict data) = Inr out"
  shows "\<exists>kvs. out = PDict kvs \<and> map_of kvs (u ''servings'') = Some (PInt (servings_of rt data))"
  using assms
  by (auto simp: coerce_recipe_dict_def u_def split: sum.splits)

lemma servings_rejected:
  assumes "out = PDict kvs" and "map_of kvs (u ''servings'') = Some (PInt n)" and "n < 1"
  shows "validate_Recipe others rt out = Inl ValidationError"
  using assms by (simp add: validate_Recipe_def servings_field_def py_int_def)

text \<open>
  Claim C10. \<open>to_int\<close> gives the default only when \<open>int()\<close> fails. A servings value that
  \<open>int()\<close> converts to a number below 1 is kept in the coerced dictionary, and the
  construction of the \<open>Recipe\<close> from it fails, whatever the other fields are.
\<close>

theorem servings_below_one_rejected:
  "(py_int rt v = Inr n \<longrightarrow> to_int rt v 2 = n) \<and>
   ((\<exists>e. py_int rt v = Inl e) \<longrightarrow> to_int rt v 2 = 2) \<and>
   (\<forall>out. map_of data (u ''servings'') = Some v \<and> py_int rt v = Inr n \<and> n < 1 \<and>
        coerce_recipe_dict rt (PDict data) = Inr out \<longrightarrow>
      field (u ''servings'') out = PInt n \<and>
      validate_Recipe others rt out = Inl ValidationError)"
proof (intro conjI allI impI)
  show "to_int rt v 2 = n" if "py_int rt v = Inr n"
    using that by (simp add: to_int_def)
  show "to_int rt v 2 = 2" if "\<exists>e. py_int rt v = Inl e"
    using that by (auto simp: to_int_def)
next
  fix out
  assume a: "map_of data (u ''servings'') = Some v \<and> py_int rt v = Inr n \<and> n < 1 \<and>
        coerce_recipe_dict rt (PDict data) = Inr out"
  then have s: "servings_of rt data = n"
    by (simp add: servings_of_def dict_get_default_def to_int_def)
  from a coerce_servings_entry [of rt data out] obtain kvs
    where kvs: "out = PDict kvs" "map_of kvs (u ''servings'') = Some (PInt n)"
    using s by auto
  from kvs show "field (u ''servings'') out = PInt n"
    by (simp add: field_def dict_get_def)
  from kvs a show "validate_Recipe others rt out = Inl ValidationError"
    by (intro servings_rejected) auto
qed

theorem servings_below_one_rejected_witness:
  "map_of zero_servings_dict (u ''servings'') = Some (PInt 0) \<and>
   py_int ascii_rt (PInt 0) = Inr 0 \<and> (0::int) < 1 \<and>
   (\<exists>out. coerce_recipe_dict ascii_rt (PDict zero_servings_dict) = Inr out \<and>
      field (u ''servings'') out = PInt 0 \<and>
      (\<forall>others. validate_Recipe others ascii_rt out = Inl ValidationError))"
proof -
  have m: "map_of zero_servings_dict (u ''servings'') = Some (PInt 0)"
    by (simp add: zero_servings_dict_def u_def)
  have i: "py_int ascii_rt (PInt 0) = Inr 0"
    by (simp add: py_int_def)
  have "\<exists>t. raw_title zero_servings_dict = PStr t"
    by (simp add: raw_title_def zero_servings_dict_def dict_get_def py_or_def u_def)
  moreover have "map_of zero_servings_dict (u ''steps'') = None \<and>
      map_of zero_servings_dict (u ''instructions'') = None"
    by (simp add: zero_servings_dict_def u_def)
  ultimately obtain out
    where out: "coerce_recipe_dict ascii_rt (PDict zero_servings_dict) = Inr out"
    using fallbacks_nonempty_returns [of zero_servings_dict ascii_rt] by blast
  have "field (u ''servings'') out = PInt 0 \<and>
        validate_Recipe others ascii_rt out = Inl ValidationError" for others
    using servings_below_one_rejected [where rt = ascii_rt and data = zero_servings_dict
        and v = "PInt 0" and n = 0 and others = others,
        THEN conjunct2, THEN conjunct2, THEN spec, of out] m i out
    by simp
  with m i out show ?thesis by auto
qed

section \<open>Properties of the extraction\<close>

text \<open>The scanner on a numeral of fuel.\<close>

lemmas scan_numeral =
  scan_once.simps(2) [of "pred_numeral k" for k, folded numeral_eq_Suc]
  scan_array.simps(2) [of "pred_numeral k" for k, folded numeral_eq_Suc]
  scan_object.simps(2) [of "pred_numeral k" for k, folded numeral_eq_Suc]

lemmas repair_eval =
  repair_def strip_def is_space_def fence_open_def backticks_def json_tag_def
  brace_search_def comma_target_def Let_def

lemmas loads_eval =
  loads_def skip_ws_def scan_number_def scan_fraction_def scan_exponent_def digits_value_def
  dict_of_pairs_def cons_fst_def simple_escape_def is_digit_def scan_numeral

lemma bad_step_repaired: "repair bad_step_text = bad_step_text"
  by (simp add: bad_step_text_def repair_eval u_def)

lemma bad_step_loaded:
  "loads bad_step_text =
     Inr (PDict [(u ''title'', PStr (u ''Tea'')),
                 (u ''steps'', PList [PDict [(u ''number'', PStr (u ''one'')),
                                             (u ''instruction'', PStr (u ''Boil water''))]])])"
  by (simp add: bad_step_text_def loads_eval u_def)

text \<open>
  Claim C3 fails on the code: the text below is a JSON object that needs no repair, and
  its normalization raises \<open>ValueError\<close>, from the unguarded \<open>int(number)\<close> of the steps
  loop.
\<close>

theorem normalize_raises_on_step_number:
  "extract_and_normalize_json bad_step_text =
     Inr (PDict [(u ''title'', PStr (u ''Tea'')),
                 (u ''steps'', PList [PDict [(u ''number'', PStr (u ''one'')),
                                             (u ''instruction'', PStr (u ''Boil water''))]])]) \<and>
   normalize ascii_rt bad_step_text = Inl ValueError"
proof -
  have e: "extract_and_normalize_json bad_step_text =
     Inr (PDict [(u ''title'', PStr (u ''Tea'')),
                 (u ''steps'', PList [PDict [(u ''number'', PStr (u ''one'')),
                                             (u ''instruction'', PStr (u ''Boil water''))]])])"
    by (simp add: extract_and_normalize_json_def bad_step_repaired bad_step_loaded)
  have "normalize ascii_rt bad_step_text = Inl ValueError"
    unfolding normalize_def e
    by (simp add: coerce_recipe_dict_def display_title_def raw_title_def alt_keys_def
        dict_get_def py_or_def steps_of_def step_instruction_def step_number_def py_int_def
        int_of_str_def ascii_int_def is_c_space_def unsigned_int_def is_digit_def is_ascii_def strip_def
        is_space_def Let_def u_def)
  with e show ?thesis by simp
qed

section \<open>Fenced code blocks\<close>

text \<open>Stripping, and the search for a fence in a text without three backticks.\<close>

lemma strip_spaces_around:
  assumes "list_all is_space lead" "list_all is_space trail"
  shows "strip (lead @ xs @ trail) = strip xs"
proof -
  have a: "dropWhile is_space (lead @ ys) = dropWhile is_space ys" for ys
    using assms(1) by (simp add: dropWhile_append2 list_all_iff)
  have b: "dropWhile is_space (rev trail @ ys) = dropWhile is_space ys" for ys
    using assms(2) by (subst dropWhile_append2) (simp_all add: list_all_iff)
  show ?thesis
  proof (cases "list_all is_space xs")
    case True
    then have e: "dropWhile is_space (xs @ trail) = []" "dropWhile is_space xs = []"
      using assms(2) by (simp_all add: list_all_iff dropWhile_eq_Nil_conv)
    show ?thesis by (simp only: strip_def a e)
  next
    case False
    then have e: "dropWhile is_space (xs @ trail) = dropWhile is_space xs @ trail"
      by (auto simp: list_all_iff dropWhile_append1)
    show ?thesis by (simp only: strip_def a e rev_append b)
  qed
qed

lemma strip_fenced:
  assumes "xs \<noteq> []" "\<not> is_space (hd xs)" "\<not> is_space (last xs)"
  shows "strip xs = xs"
proof -
  from assms obtain c cs where xs: "xs = c # cs" by (cases xs) auto
  with assms have l: "dropWhile is_space xs = xs" by simp
  from assms have "rev xs = last xs # rev (butlast xs)"
    by (metis rev.simps(2) rev_swap append_butlast_last_id)
  with assms have "dropWhile is_space (rev xs) = rev xs"
    by (metis dropWhile.simps(2))
  with l show ?thesis by (simp add: strip_def)
qed

lemma fence_search_none:
  "\<not> sublist backticks s \<Longrightarrow> fence_search s = None"
proof (induction s)
  case Nil
  show ?case by simp
next
  case (Cons c cs)
  then have "\<not> prefix backticks (c # cs)" by (meson prefix_imp_sublist)
  moreover from Cons.prems have "\<not> sublist backticks cs" by (meson sublist_Cons_right)
  ultimately show ?case using Cons.IH by (simp add: fence_open_def)
qed

lemma sublist_strip:
  assumes "sublist xs (strip s)"
  shows "sublist xs s"
proof -
  have "suffix (dropWhile is_space (rev (dropWhile is_space s))) (rev (dropWhile is_space s))"
    by (rule suffix_dropWhile)
  then have "prefix (strip s) (dropWhile is_space s)"
    by (simp add: strip_def suffix_to_prefix)
  then have "sublist (strip s) (dropWhile is_space s)"
    by (rule prefix_imp_sublist)
  moreover have "sublist (dropWhile is_space s) s"
    by (rule suffix_imp_sublist) (rule suffix_dropWhile)
  ultimately show ?thesis
    using assms by (meson sublist_order.order_trans)
qed

lemma before_fence_spaces:
  "list_all is_space inner \<Longrightarrow> before_fence (inner @ backticks) = Some inner"
  by (induction inner) (auto simp: backticks_def is_space_def)

lemma before_fence_body:
  assumes "\<not> sublist backticks J" "J = [] \<or> last J \<noteq> 96" "list_all is_space inner"
  shows "before_fence (J @ inner @ backticks) = Some (J @ inner)"
  using assms(1,2)
proof (induction J)
  case Nil
  show ?case using assms(3) by (simp add: before_fence_spaces)
next
  case (Cons c cs)
  have "\<not> prefix backticks (c # cs @ inner @ backticks)"
  proof
    assume p: "prefix backticks (c # cs @ inner @ backticks)"
    show False
    proof (cases cs)
      case Nil
      with p Cons.prems show False by (simp add: backticks_def)
    next
      case c1: (Cons d ds)
      show False
      proof (cases ds)
        case Nil
        with c1 p Cons.prems show False by (simp add: backticks_def)
      next
        case c2: (Cons e es)
        with c1 p have "prefix backticks (c # cs)" by (simp add: backticks_def)
        with Cons.prems show False by (meson prefix_imp_sublist)
      qed
    qed
  qed
  moreover have "\<not> sublist backticks cs"
    using Cons.prems by (meson sublist_Cons_right)
  moreover have "cs = [] \<or> last cs \<noteq> 96"
    using Cons.prems by (cases cs) auto
  ultimately show ?case using Cons.IH by simp
qed

lemma fence_open_tagged:
  assumes "tag = [] \<or> json_tag tag"
  shows "fence_open (backticks @ tag @ [10] @ body) = Some body"
proof -
  have d: "drop 3 (backticks @ tag @ [10] @ body) = tag @ [10] @ body"
    by (simp add: backticks_def)
  from assms show ?thesis
  proof
    assume "tag = []"
    then show ?thesis
      unfolding fence_open_def d
      by (simp add: json_tag_def split: list.splits)
  next
    assume t: "json_tag tag"
    then obtain a b c e where tag: "tag = [a, b, c, e]"
      by (auto simp: json_tag_def split: list.splits)
    with t show ?thesis
      unfolding fence_open_def d by simp
  qed
qed

lemma fence_search_fenced:
  assumes "\<not> sublist backticks J" and "J = [] \<or> last J \<noteq> 96"
    and "tag = [] \<or> json_tag tag" and "list_all is_space inner"
  shows "fence_search (backticks @ tag @ [10] @ J @ inner @ backticks) = Some (J @ inner)"
proof -
  define rest where "rest = [96, 96] @ tag @ [10] @ J @ inner @ backticks"
  have X: "backticks @ tag @ [10] @ J @ inner @ backticks = 96 # rest"
    by (simp add: rest_def backticks_def)
  have opened: "fence_open (96 # rest) = Some (J @ inner @ backticks)"
    using fence_open_tagged [OF assms(3), of "J @ inner @ backticks"] unfolding X .
  have closed: "before_fence (J @ inner @ backticks) = Some (J @ inner)"
    using assms(1,2,4) by (rule before_fence_body)
  show ?thesis
    unfolding X by (simp only: fence_search.simps opened closed option.case)
qed

lemma repair_fenced:
  assumes "\<not> sublist backticks J" and "J = [] \<or> last J \<noteq> 96"
    and "tag = [] \<or> json_tag tag"
    and "list_all is_space lead" and "list_all is_space inner" and "list_all is_space trail"
  shows "repair (lead @ backticks @ tag @ [10] @ J @ inner @ backticks @ trail) = repair J"
proof -
  let ?X = "backticks @ tag @ [10] @ J @ inner @ backticks"
  have "strip (lead @ ?X @ trail) = strip ?X"
    using assms(4,6) by (rule strip_spaces_around)
  moreover have "strip ?X = ?X"
    by (rule strip_fenced) (simp_all add: backticks_def is_space_def)
  ultimately have outer: "strip (lead @ backticks @ tag @ [10] @ J @ inner @ backticks @ trail) = ?X"
    by simp
  have found: "fence_search ?X = Some (J @ inner)"
    using assms(1,2,3,5) by (rule fence_search_fenced)
  have inner: "strip (J @ inner) = strip J"
    using strip_spaces_around [of "[]" inner J] assms(5) by simp
  have "\<not> sublist backticks (strip J)"
    using assms(1) sublist_strip by blast
  then have bare: "fence_search (strip J) = None"
    by (rule fence_search_none)
  show ?thesis
    by (simp only: repair_def Let_def outer found bare inner option.case)
qed

text \<open>
  Claim C6, amended. Let \<open>J\<close> be a text without three backticks in a row that does not
  end in a backtick (as every JSON object text whose strings hold no three backticks).
  Wrap it in a fence: three backticks, then nothing or \<open>json\<close> in any letter case, then a
  newline, then \<open>J\<close>, then optional white space, then three backticks, with optional white
  space before and after the whole. Then the wrapped text is normalized to the same
  result as \<open>J\<close>, be it a recipe or an error.
\<close>

theorem normalize_fenced:
  assumes "\<not> sublist backticks J" and "J = [] \<or> last J \<noteq> 96"
    and "tag = [] \<or> json_tag tag"
    and "list_all is_space lead" and "list_all is_space inner" and "list_all is_space trail"
  shows "normalize rt (lead @ backticks @ tag @ [10] @ J @ inner @ backticks @ trail) =
           normalize rt J"
  by (simp only: normalize_def extract_and_normalize_json_def repair_fenced [OF assms])

lemma tea_normalized:
  "normalize ascii_rt tea_json =
     Inr (PDict
       [(u ''title'', PStr (u ''Tea'')),
        (u ''cuisine'', PNone),
        (u ''servings'', PInt 1),
        (u ''total_time_minutes'', PNone),
        (u ''ingredients'', PList [default_ingredient]),
        (u ''steps'', PList [default_step]),
        (u ''nutrition'', PNone),
        (u ''tips'', PNone)])"
proof -
  have r: "repair tea_json = tea_json"
    by (simp add: tea_json_def repair_eval u_def)
  have l: "loads tea_json =
             Inr (PDict [(u ''title'', PStr (u ''Tea'')), (u ''servings'', PInt 1)])"
    by (simp add: tea_json_def loads_eval u_def)
  show ?thesis
    unfolding normalize_def extract_and_normalize_json_def r l
    by (simp add: coerce_recipe_dict_def display_title_def raw_title_def
        alt_keys_def dict_get_def dict_get_default_def py_or_def py_str_def
        servings_of_def total_time_of_def to_int_def py_int_def
        ingredients_of_def steps_of_def Let_def u_def)
qed

theorem normalize_fenced_witness:
  "\<not> sublist backticks tea_json \<and> (tea_json = [] \<or> last tea_json \<noteq> 96) \<and>
   (u ''json'' = [] \<or> json_tag (u ''json'')) \<and>
   list_all is_space [] \<and> list_all is_space [10] \<and>
   normalize ascii_rt fenced_tea = normalize ascii_rt tea_json \<and>
   normalize ascii_rt fenced_tea =
     Inr (PDict
       [(u ''title'', PStr (u ''Tea'')),
        (u ''cuisine'', PNone),
        (u ''servings'', PInt 1),
        (u ''total_time_minutes'', PNone),
        (u ''ingredients'', PList [default_ingredient]),
        (u ''steps'', PList [default_step]),
        (u ''nutrition'', PNone),
        (u ''tips'', PNone)])"
proof -
  have h1: "\<not> sublist backticks tea_json"
    by (simp add: tea_json_def backticks_def u_def sublist_Cons_right)
  have h2: "tea_json = [] \<or> last tea_json \<noteq> 96"
    by (simp add: tea_json_def u_def)
  have h3: "u ''json'' = [] \<or> json_tag (u ''json'')"
    by (simp add: json_tag_def u_def)
  have h4: "list_all is_space []" and h5: "list_all is_space [10]"
    by (simp_all add: is_space_def)
  have "normalize ascii_rt ([] @ backticks @ u ''json'' @ [10] @ tea_json @ [10] @ backticks @ []) =
          normalize ascii_rt tea_json"
    by (rule normalize_fenced [OF h1 h2 h3 h4 h5 h4])
  then have "normalize ascii_rt fenced_tea = normalize ascii_rt tea_json"
    by (simp add: fenced_tea_def)
  with h1 h2 h3 h4 h5 tea_normalized show ?thesis by simp
qed

text \<open>
  Claim C6 as first stated fails. A JSON object with three backticks inside a string is
  normalized to a recipe, but in a \<open>json\<close> fence the lazy match ends at those backticks
  and the rest does not parse. And a fence that names another language is not
  recognized, so that the text is parsed with its backticks.
\<close>

theorem normalize_fenced_counterexample:
  "normalize ascii_rt tick_json =
     Inr (PDict
       [(u ''title'', PStr (u ''a```b'')),
        (u ''cuisine'', PNone),
        (u ''servings'', PInt 2),
        (u ''total_time_minutes'', PNone),
        (u ''ingredients'', PList [default_ingredient]),
        (u ''steps'', PList [default_step]),
        (u ''nutrition'', PNone),
        (u ''tips'', PNone)]) \<and>
   normalize ascii_rt fenced_tick = Inl JSONDecodeError \<and>
   normalize ascii_rt python_fenced_tea = Inl JSONDecodeError \<and>
   normalize ascii_rt python_fenced_tea \<noteq> normalize ascii_rt tea_json"
proof -
  have r1: "repair tick_json = tick_json"
    by (simp add: tick_json_def repair_eval u_def)
  have l1: "loads tick_json = Inr (PDict [(u ''title'', PStr (u ''a```b''))])"
    by (simp add: tick_json_def loads_eval u_def)
  have bare: "normalize ascii_rt tick_json =
     Inr (PDict
       [(u ''title'', PStr (u ''a```b'')),
        (u ''cuisine'', PNone),
        (u ''servings'', PInt 2),
        (u ''total_time_minutes'', PNone),
        (u ''ingredients'', PList [default_ingredient]),
        (u ''steps'', PList [default_step]),
        (u ''nutrition'', PNone),
        (u ''tips'', PNone)])"
    unfolding normalize_def extract_and_normalize_json_def r1 l1
    by (simp add: coerce_recipe_dict_def display_title_def raw_title_def
        alt_keys_def dict_get_def dict_get_default_def py_or_def py_str_def
        servings_of_def total_time_of_def to_int_def py_int_def
        ingredients_of_def steps_of_def Let_def u_def)
  have r2: \<open>repair fenced_tick = u ''{"title": "a''\<close>
    by (simp add: fenced_tick_def tick_json_def repair_eval u_def)
  have l2: \<open>loads (u ''{"title": "a'') = Inl JSONDecodeError\<close>
    by (simp add: loads_eval u_def)
  have fenced: "normalize ascii_rt fenced_tick = Inl JSONDecodeError"
    unfolding normalize_def extract_and_normalize_json_def r2 l2 by simp
  have r3: "repair python_fenced_tea = python_fenced_tea"
    by (simp add: python_fenced_tea_def tea_json_def repair_eval u_def)
  have l3: "loads python_fenced_tea = Inl JSONDecodeError"
    by (simp add: python_fenced_tea_def tea_json_def backticks_def loads_eval u_def)
  have python: "normalize ascii_rt python_fenced_tea = Inl JSONDecodeError"
    unfolding normalize_def extract_and_normalize_json_def r3 l3 by simp
  from bare fenced python tea_normalized show ?thesis by simp
qed

end
